theory Spec2Isabelle
  imports Main
begin

section \<open>Python values, exceptions and the outside world\<close>

text \<open>
  The library is dynamically typed: an identifier is an int or a str, a parameter may be
  None, a single value or a list, and a JSON response is whatever \<^verbatim>\<open>json.loads\<close> returns.
  One datatype holds all of these. A JSON object has string keys and keeps its insertion
  order, so it is an association list. Non-integral JSON numbers are not part of the model.
\<close>

datatype pyval =
    PNone
  | PBool bool
  | PInt int
  | PStr string
  | PList "pyval list"
  | PDict "(string \<times> pyval) list"

text \<open>
  The exceptions the modelled code raises, catches or lets through.
  \<^verbatim>\<open>urllib.error.HTTPError\<close> is a subclass of \<^verbatim>\<open>urllib.error.URLError\<close>, so a handler
  for \<^verbatim>\<open>URLError\<close> also catches an \<^verbatim>\<open>HTTPError\<close>; \<open>URLError\<close> below is a URL error that is
  not an HTTP error. \<open>SSLError\<close> is \<^verbatim>\<open>requests.exceptions.SSLError\<close>.
\<close>

datatype exn =
    HTTPError nat
  | URLError
  | SSLError
  | NameError string
  | Exception string
  | KeyError
  | IndexError
  | AttributeError
  | TypeError
  | ValueError
  | OtherError string

fun isinstance_HTTPError :: "exn \<Rightarrow> bool" where
  "isinstance_HTTPError (HTTPError c) = True"
| "isinstance_HTTPError e = False"

fun isinstance_URLError :: "exn \<Rightarrow> bool" where
  "isinstance_URLError (HTTPError c) = True"
| "isinstance_URLError URLError = True"
| "isinstance_URLError e = False"

text \<open>
  A table (pandas DataFrame): its column labels, and its rows in order, each with its
  index label. A cell that a row does not hold reads as NaN.
\<close>

datatype cell = Txt string | Num int | NaN

record dataframe =
  columns :: "string list"
  rows :: "(int \<times> (string \<times> cell) list) list"

text \<open>
  Every request the code issues is logged: \<open>HttpGet verify url\<close> is
  \<^verbatim>\<open>requests.get(url, verify=verify)\<close>, \<open>ReadCsv url\<close> is \<^verbatim>\<open>pd.read_csv(url)\<close>. An operation
  returns the requests it issued, in order, with its result or the exception it raised.
\<close>

datatype request = HttpGet bool string | ReadCsv string

type_synonym 'a io = "request list \<times> (exn + 'a)"

text \<open>
  The collaborators the code calls but does not define: the HTTP transport, the JSON
  parser, the CSV reader, and Python's \<^verbatim>\<open>repr\<close> of a list or dict. \<open>json_loads\<close> stands for
  \<^verbatim>\<open>json.loads(req.content.decode('utf-8'))\<close> and \<open>read_csv_text\<close> for
  \<^verbatim>\<open>pd.read_csv(StringIO(str(req.content, 'utf-8')))\<close>.
\<close>

record env =
  requests_get :: "bool \<Rightarrow> string \<Rightarrow> exn + string"
  json_loads :: "string \<Rightarrow> exn + pyval"
  read_csv_url :: "string \<Rightarrow> exn + dataframe"
  read_csv_text :: "string \<Rightarrow> exn + dataframe"
  repr_compound :: "pyval \<Rightarrow> string"

definition bind_io :: "'a io \<Rightarrow> ('a \<Rightarrow> 'b io) \<Rightarrow> 'b io" where
  "bind_io m f =
     (case m of
        (rs, Inl e) \<Rightarrow> (rs, Inl e)
      | (rs, Inr x) \<Rightarrow> (case f x of (rs', r) \<Rightarrow> (rs @ rs', r)))"

definition pure_io :: "exn + 'a \<Rightarrow> 'a io" where
  "pure_io r = ([], r)"

subsection \<open>Built-ins\<close>

definition digit_char :: "nat \<Rightarrow> char" where
  "digit_char d = ''0123456789'' ! d"

function str_nat :: "nat \<Rightarrow> string" where
  "str_nat n = (if n < 10 then [digit_char n] else str_nat (n div 10) @ [digit_char (n mod 10)])"
  by pat_completeness auto
termination
  by (relation "measure id") auto

declare str_nat.simps [simp del]

definition str_int :: "int \<Rightarrow> string" where
  "str_int i = (if i < 0 then CHR ''-'' # str_nat (nat (- i)) else str_nat (nat i))"

text \<open>\<^verbatim>\<open>str(x)\<close>, which is also what an f-string field and \<^verbatim>\<open>str.format\<close> insert.\<close>

fun py_str :: "env \<Rightarrow> pyval \<Rightarrow> string" where
  "py_str w PNone = ''None''"
| "py_str w (PBool b) = (if b then ''True'' else ''False'')"
| "py_str w (PInt i) = str_int i"
| "py_str w (PStr s) = s"
| "py_str w v = repr_compound w v"

text \<open>Truthiness, as \<^verbatim>\<open>if x:\<close> and \<^verbatim>\<open>not x\<close> decide it.\<close>

fun truthy :: "pyval \<Rightarrow> bool" where
  "truthy PNone = False"
| "truthy (PBool b) = b"
| "truthy (PInt i) = (i \<noteq> 0)"
| "truthy (PStr s) = (s \<noteq> [])"
| "truthy (PList xs) = (xs \<noteq> [])"
| "truthy (PDict d) = (d \<noteq> [])"

text \<open>What a \<^verbatim>\<open>for\<close> loop iterates over: a dict gives its keys, a str its characters.\<close>

fun py_iter :: "pyval \<Rightarrow> exn + pyval list" where
  "py_iter (PList xs) = Inr xs"
| "py_iter (PDict d) = Inr (map (\<lambda>kv. PStr (fst kv)) d)"
| "py_iter (PStr s) = Inr (map (\<lambda>c. PStr [c]) s)"
| "py_iter v = Inl TypeError"

text \<open>
  Keys of a dict built by the code. Python identifies keys that are equal and hash alike,
  so \<^verbatim>\<open>True\<close> and \<^verbatim>\<open>1\<close> are one key; a list or a dict is unhashable and storing under it
  raises \<^verbatim>\<open>TypeError\<close>.
\<close>

datatype pykey = KNone | KInt int | KStr string

fun hash_key :: "pyval \<Rightarrow> pykey option" where
  "hash_key PNone = Some KNone"
| "hash_key (PBool b) = Some (KInt (if b then 1 else 0))"
| "hash_key (PInt i) = Some (KInt i)"
| "hash_key (PStr s) = Some (KStr s)"
| "hash_key (PList xs) = None"
| "hash_key (PDict d) = None"

text \<open>
  \<^verbatim>\<open>d[k] = v\<close>: an existing key keeps its place and takes the new value, a new key goes to
  the end.
\<close>

fun dict_store :: "'k \<Rightarrow> 'v \<Rightarrow> ('k \<times> 'v) list \<Rightarrow> ('k \<times> 'v) list" where
  "dict_store k v [] = [(k, v)]"
| "dict_store k v (p # ps) = (if fst p = k then (k, v) # ps else p # dict_store k v ps)"

definition dict_remove :: "'k \<Rightarrow> ('k \<times> 'v) list \<Rightarrow> ('k \<times> 'v) list" where
  "dict_remove k d = filter (\<lambda>p. fst p \<noteq> k) d"

text \<open>\<^verbatim>\<open>js.get(name)\<close>: the field, or None when the object lacks it.\<close>

fun py_get :: "pyval \<Rightarrow> string \<Rightarrow> exn + pyval" where
  "py_get (PDict d) name = Inr (case map_of d name of None \<Rightarrow> PNone | Some v \<Rightarrow> v)"
| "py_get v name = Inl AttributeError"

section \<open>api_calls\<close>

definition base_url :: string where
  "base_url = ''https://fingertips.phe.org.uk/api/''"

text \<open>
  The block \<^verbatim>\<open>try: req = requests.get(url)\<close> / \<^verbatim>\<open>except SSLError: req = requests.get(url, verify=False)\<close>
  followed by \<^verbatim>\<open>json.loads(req.content.decode('utf-8'))\<close>, which \<^verbatim>\<open>make_request\<close> and \<^verbatim>\<open>get_json\<close>
  both open with.
\<close>

definition get_json :: "env \<Rightarrow> string \<Rightarrow> pyval io" where
  "get_json w url =
     (case requests_get w True url of
        Inr body \<Rightarrow> ([HttpGet True url], json_loads w body)
      | Inl e \<Rightarrow>
          if e = SSLError then
            (case requests_get w False url of
               Inr body \<Rightarrow> ([HttpGet True url, HttpGet False url], json_loads w body)
             | Inl e' \<Rightarrow> ([HttpGet True url, HttpGet False url], Inl e'))
          else ([HttpGet True url], Inl e))"

text \<open>
  The loop of \<^verbatim>\<open>make_request\<close>: \<^verbatim>\<open>name = item.pop(attr); data[name] = item\<close>. \<^verbatim>\<open>attr\<close> defaults
  to None, which no JSON object has as a key.
\<close>

fun item_pop :: "pyval \<Rightarrow> string option \<Rightarrow> exn + (pyval \<times> pyval)" where
  "item_pop (PDict d) None = Inl KeyError"
| "item_pop (PDict d) (Some a) =
     (case map_of d a of
        None \<Rightarrow> Inl KeyError
      | Some name \<Rightarrow> Inr (name, PDict (dict_remove a d)))"
| "item_pop (PList xs) attr = Inl TypeError"
| "item_pop v attr = Inl AttributeError"

fun make_request_loop ::
  "string option \<Rightarrow> pyval list \<Rightarrow> (pykey \<times> pyval) list \<Rightarrow> exn + (pykey \<times> pyval) list" where
  "make_request_loop attr [] data = Inr data"
| "make_request_loop attr (item # items) data =
     (case item_pop item attr of
        Inl e \<Rightarrow> Inl e
      | Inr (name, item') \<Rightarrow>
          (case hash_key name of
             None \<Rightarrow> Inl TypeError
           | Some k \<Rightarrow> make_request_loop attr items (dict_store k item' data)))"

definition normalize_pop :: "string option \<Rightarrow> pyval \<Rightarrow> exn + (pykey \<times> pyval) list" where
  "normalize_pop attr json_response =
     (case py_iter json_response of
        Inl e \<Rightarrow> Inl e
      | Inr items \<Rightarrow> make_request_loop attr items [])"

definition make_request :: "env \<Rightarrow> string \<Rightarrow> string option \<Rightarrow> (pykey \<times> pyval) list io" where
  "make_request w url attr =
     bind_io (get_json w url) (\<lambda>json_response. pure_io (normalize_pop attr json_response))"

text \<open>
  \<^verbatim>\<open>get_data_in_dict\<close>. \<^verbatim>\<open>list(json_list[0].keys())[0]\<close> is the default key; a dict indexed by
  0 has no such key, an empty list or an empty first object has no element 0.
\<close>

fun index0 :: "pyval \<Rightarrow> exn + pyval" where
  "index0 (PList []) = Inl IndexError"
| "index0 (PList (x # xs)) = Inr x"
| "index0 (PStr []) = Inl IndexError"
| "index0 (PStr (c # cs)) = Inr (PStr [c])"
| "index0 (PDict d) = Inl KeyError"
| "index0 v = Inl TypeError"

fun first_key :: "pyval \<Rightarrow> exn + string" where
  "first_key (PDict []) = Inl IndexError"
| "first_key (PDict (kv # d)) = Inr (fst kv)"
| "first_key v = Inl AttributeError"

definition default_key :: "pyval \<Rightarrow> exn + string" where
  "default_key json_list =
     (case index0 json_list of Inl e \<Rightarrow> Inl e | Inr js \<Rightarrow> first_key js)"

fun pick_loop ::
  "string \<Rightarrow> string option \<Rightarrow> pyval list \<Rightarrow> (pykey \<times> pyval) list \<Rightarrow> exn + (pykey \<times> pyval) list" where
  "pick_loop key val [] json_dict = Inr json_dict"
| "pick_loop key val (js # rest) json_dict =
     (case (case val of None \<Rightarrow> Inr js | Some f \<Rightarrow> py_get js f) of
        Inl e \<Rightarrow> Inl e
      | Inr v \<Rightarrow>
          (case py_get js key of
             Inl e \<Rightarrow> Inl e
           | Inr kv \<Rightarrow>
               (case hash_key kv of
                  None \<Rightarrow> Inl TypeError
                | Some k \<Rightarrow> pick_loop key val rest (dict_store k v json_dict))))"

definition normalize_pick ::
  "string option \<Rightarrow> string option \<Rightarrow> pyval \<Rightarrow> exn + (pykey \<times> pyval) list" where
  "normalize_pick key val json_list =
     (case (case key of None \<Rightarrow> default_key json_list | Some k \<Rightarrow> Inr k) of
        Inl e \<Rightarrow> Inl e
      | Inr k \<Rightarrow>
          (case py_iter json_list of
             Inl e \<Rightarrow> Inl e
           | Inr items \<Rightarrow> pick_loop k val items []))"

definition get_data_in_dict ::
  "env \<Rightarrow> string \<Rightarrow> string option \<Rightarrow> string option \<Rightarrow> (pykey \<times> pyval) list io" where
  "get_data_in_dict w url key val =
     bind_io (get_json w url) (\<lambda>json_list. pure_io (normalize_pick key val json_list))"

text \<open>\<^verbatim>\<open>deal_with_url_error\<close>: one request without certificate verification, parsed as CSV.\<close>

definition deal_with_url_error :: "env \<Rightarrow> string \<Rightarrow> dataframe io" where
  "deal_with_url_error w url =
     (case requests_get w False url of
        Inl e \<Rightarrow> ([HttpGet False url], Inl e)
      | Inr s \<Rightarrow> ([HttpGet False url], read_csv_text w s))"

section \<open>Tables\<close>

text \<open>
  The pandas operations the code uses. \<^verbatim>\<open>pd.concat([a, b])\<close> appends the rows of \<open>b\<close> to those
  of \<open>a\<close>, every row keeping its index label, over the union of the columns.
  \<^verbatim>\<open>df[col]\<close> raises \<^verbatim>\<open>KeyError\<close> for a column the table lacks. \<^verbatim>\<open>df.reset_index()\<close> numbers
  the rows from zero and keeps the old labels in a new first column, called \<^verbatim>\<open>index\<close>, or
  \<^verbatim>\<open>level_0\<close> when \<^verbatim>\<open>index\<close> is taken, and raises \<^verbatim>\<open>ValueError\<close> when that is taken too.
\<close>

definition empty_df :: dataframe where
  "empty_df = \<lparr>columns = [], rows = []\<rparr>"

definition nrows :: "dataframe \<Rightarrow> nat" where
  "nrows df = length (rows df)"

definition pd_concat :: "dataframe \<Rightarrow> dataframe \<Rightarrow> dataframe" where
  "pd_concat a b =
     \<lparr>columns = columns a @ filter (\<lambda>c. c \<notin> set (columns a)) (columns b),
      rows = rows a @ rows b\<rparr>"

definition cell_at :: "(string \<times> cell) list \<Rightarrow> string \<Rightarrow> cell" where
  "cell_at r c = (case map_of r c of None \<Rightarrow> NaN | Some v \<Rightarrow> v)"

text \<open>
  \<^verbatim>\<open>Series.isin(values)\<close> on one cell and one value: a string cell matches the same string,
  an integer cell the same integer and the bool that equals it (\<^verbatim>\<open>True\<close> is 1), a missing cell
  None. \<^verbatim>\<open>df.loc[df[col].isin(values)]\<close> keeps the rows whose cell matches some value, and
  \<^verbatim>\<open>df.loc[df[col] == code]\<close>, for a string \<open>code\<close>, the rows whose cell is that string.
\<close>

fun isin_match :: "cell \<Rightarrow> pyval \<Rightarrow> bool" where
  "isin_match (Txt s) (PStr t) = (s = t)"
| "isin_match (Num i) (PInt j) = (i = j)"
| "isin_match (Num i) (PBool b) = (i = (if b then 1 else 0))"
| "isin_match NaN PNone = True"
| "isin_match c v = False"

definition loc_isin :: "dataframe \<Rightarrow> string \<Rightarrow> pyval list \<Rightarrow> exn + dataframe" where
  "loc_isin df col vals =
     (if col \<in> set (columns df)
      then Inr (df\<lparr>rows := filter (\<lambda>ir. list_ex (isin_match (cell_at (snd ir) col)) vals) (rows df)\<rparr>)
      else Inl KeyError)"

definition loc_eq :: "dataframe \<Rightarrow> string \<Rightarrow> string \<Rightarrow> exn + dataframe" where
  "loc_eq df col code =
     (if col \<in> set (columns df)
      then Inr (df\<lparr>rows := filter (\<lambda>ir. cell_at (snd ir) col = Txt code) (rows df)\<rparr>)
      else Inl KeyError)"

definition reset_index :: "dataframe \<Rightarrow> exn + dataframe" where
  "reset_index df =
     (let name = (if ''index'' \<in> set (columns df) then ''level_0'' else ''index'')
      in if name \<in> set (columns df) then Inl ValueError
         else Inr \<lparr>columns = name # columns df,
                   rows = map (\<lambda>nir. (int (fst nir), (name, Num (fst (snd nir))) # snd (snd nir)))
                            (enumerate 0 (rows df))\<rparr>)"

section \<open>metadata\<close>

text \<open>
  The functions are modelled as called with \<^verbatim>\<open>is_test=False\<close>, the default. Strings are
  ASCII: \<^verbatim>\<open>str.lower\<close> maps A to Z onto a to z and leaves every other character.
\<close>

definition lower_char :: "char \<Rightarrow> char" where
  "lower_char c =
     (case map_of (zip ''ABCDEFGHIJKLMNOPQRSTUVWXYZ'' ''abcdefghijklmnopqrstuvwxyz'') c of
        None \<Rightarrow> c
      | Some l \<Rightarrow> l)"

definition str_lower :: "string \<Rightarrow> string" where
  "str_lower s = map lower_char s"

fun py_lower :: "pyval \<Rightarrow> exn + string" where
  "py_lower (PStr s) = Inr (str_lower s)"
| "py_lower v = Inl AttributeError"

text \<open>\<^verbatim>\<open>p in s\<close> on strings: \<open>p\<close> occurs in \<open>s\<close> as a contiguous run.\<close>

fun starts_with :: "string \<Rightarrow> string \<Rightarrow> bool" where
  "starts_with [] s = True"
| "starts_with (p # ps) [] = False"
| "starts_with (p # ps) (c # cs) = (p = c \<and> starts_with ps cs)"

fun py_in :: "string \<Rightarrow> string \<Rightarrow> bool" where
  "py_in p [] = (p = [])"
| "py_in p (c # cs) = (starts_with p (c # cs) \<or> py_in p cs)"

fun comma_join :: "string list \<Rightarrow> string" where
  "comma_join [] = []"
| "comma_join [x] = x"
| "comma_join (x # y # zs) = x @ '','' @ comma_join (y # zs)"

definition get_metadata_for_indicator :: "env \<Rightarrow> pyval \<Rightarrow> pyval io" where
  "get_metadata_for_indicator w indicator_number =
     bind_io
       (get_json w (base_url @ ''indicator_metadata/by_indicator_id?indicator_ids=''
                    @ py_str w indicator_number))
       (\<lambda>metadata. pure_io (py_get metadata (py_str w indicator_number)))"

definition classify_calc :: "string \<Rightarrow> pyval" where
  "classify_calc calc_metadata =
     (if py_in ''wilson'' (str_lower calc_metadata) then PStr ''Wilson''
      else if py_in ''byar'' (str_lower calc_metadata) then PStr ''Byar''
      else PNone)"

definition multiplier_and_calculation :: "pyval \<Rightarrow> exn + (pyval \<times> pyval)" where
  "multiplier_and_calculation metadata =
     (case py_get metadata ''Unit'' of
        Inl e \<Rightarrow> Inl e
      | Inr unit \<Rightarrow>
     (case py_get unit ''Value'' of
        Inl e \<Rightarrow> Inl e
      | Inr multiplier \<Rightarrow>
     (case py_get metadata ''ConfidenceIntervalMethod'' of
        Inl e \<Rightarrow> Inl e
      | Inr method \<Rightarrow>
     (case py_get method ''Name'' of
        Inl e \<Rightarrow> Inl e
      | Inr calc_metadata \<Rightarrow>
     (case calc_metadata of
        PStr name \<Rightarrow> Inr (multiplier, classify_calc name)
      | _ \<Rightarrow> Inl AttributeError)))))"

definition get_multiplier_and_calculation_for_indicator ::
  "env \<Rightarrow> pyval \<Rightarrow> (pyval \<times> pyval) io" where
  "get_multiplier_and_calculation_for_indicator w indicator_number =
     bind_io (get_metadata_for_indicator w indicator_number)
       (\<lambda>metadata. pure_io (multiplier_and_calculation metadata))"

definition get_all_profiles :: "env \<Rightarrow> (pykey \<times> pyval) list io" where
  "get_all_profiles w = get_data_in_dict w (base_url @ ''profiles'') None None"

definition get_area_types_for_profile :: "env \<Rightarrow> pyval \<Rightarrow> (pykey \<times> pyval) list io" where
  "get_area_types_for_profile w profile_id =
     get_data_in_dict w (base_url @ ''area_types?profile_ids='' @ py_str w profile_id) None None"

fun get_ids :: "pyval list \<Rightarrow> exn + pyval list" where
  "get_ids [] = Inr []"
| "get_ids (v # vs) =
     (case py_get v ''Id'' of
        Inl e \<Rightarrow> Inl e
      | Inr i \<Rightarrow> (case get_ids vs of Inl e \<Rightarrow> Inl e | Inr is \<Rightarrow> Inr (i # is)))"

definition get_area_type_ids_for_profile :: "env \<Rightarrow> pyval \<Rightarrow> pyval list io" where
  "get_area_type_ids_for_profile w profile_id =
     bind_io (get_area_types_for_profile w profile_id)
       (\<lambda>area_type_obj. pure_io (get_ids (map snd area_type_obj)))"

text \<open>
  \<^verbatim>\<open>get_profile_by_name\<close>: the loop over \<^verbatim>\<open>all_profiles.values()\<close> overwrites \<^verbatim>\<open>profile_obj\<close>,
  which starts as the empty string, at every match.
\<close>

fun search_profiles :: "string \<Rightarrow> pyval list \<Rightarrow> pyval \<Rightarrow> exn + pyval" where
  "search_profiles profile_name [] profile_obj = Inr profile_obj"
| "search_profiles profile_name (profile # rest) profile_obj =
     (case py_get profile ''Name'' of
        Inl e \<Rightarrow> Inl e
      | Inr name \<Rightarrow>
          (case py_lower name of
             Inl e \<Rightarrow> Inl e
           | Inr lowered \<Rightarrow>
               search_profiles profile_name rest
                 (if py_in (str_lower profile_name) lowered then profile else profile_obj)))"

definition get_profile_by_name :: "env \<Rightarrow> string \<Rightarrow> pyval io" where
  "get_profile_by_name w profile_name =
     bind_io (get_all_profiles w)
       (\<lambda>all_profiles. pure_io
          (case search_profiles profile_name (map snd all_profiles) (PStr []) of
             Inl e \<Rightarrow> Inl e
           | Inr profile_obj \<Rightarrow>
               Inr (if \<not> truthy profile_obj then PStr ''Profile could not be found''
                    else profile_obj)))"

text \<open>
  The two \<^verbatim>\<open>try\<close> statements around \<^verbatim>\<open>pd.read_csv(url)\<close>. The first has the handlers
  \<^verbatim>\<open>except HTTPError: raise ...\<close> and then \<^verbatim>\<open>except URLError: df = deal_with_url_error(url)\<close>;
  the second has the \<^verbatim>\<open>URLError\<close> handler alone, which an \<^verbatim>\<open>HTTPError\<close> reaches too.
\<close>

definition read_csv_except_http_url :: "env \<Rightarrow> string \<Rightarrow> exn \<Rightarrow> dataframe io" where
  "read_csv_except_http_url w url raised =
     (case read_csv_url w url of
        Inr df \<Rightarrow> ([ReadCsv url], Inr df)
      | Inl e \<Rightarrow>
          if isinstance_HTTPError e then ([ReadCsv url], Inl raised)
          else if isinstance_URLError e then
            (case deal_with_url_error w url of (rs, r) \<Rightarrow> (ReadCsv url # rs, r))
          else ([ReadCsv url], Inl e))"

definition read_csv_except_url :: "env \<Rightarrow> string \<Rightarrow> dataframe io" where
  "read_csv_except_url w url =
     (case read_csv_url w url of
        Inr df \<Rightarrow> ([ReadCsv url], Inr df)
      | Inl e \<Rightarrow>
          if isinstance_URLError e then
            (case deal_with_url_error w url of (rs, r) \<Rightarrow> (ReadCsv url # rs, r))
          else ([ReadCsv url], Inl e))"

definition get_metadata_for_all_indicators_from_csv :: "env \<Rightarrow> dataframe io" where
  "get_metadata_for_all_indicators_from_csv w =
     read_csv_except_url w (base_url @ ''indicator_metadata/csv/all'')"

text \<open>
  \<^verbatim>\<open>if isinstance(indicator_ids, list): indicator_ids = ','.join(list(map(str, indicator_ids)))\<close>,
  read through \<^verbatim>\<open>str(indicator_ids)\<close>.
\<close>

definition joined_ids :: "env \<Rightarrow> pyval \<Rightarrow> string" where
  "joined_ids w indicator_ids =
     (case indicator_ids of
        PList xs \<Rightarrow> comma_join (map (py_str w) xs)
      | v \<Rightarrow> py_str w v)"

definition indicator_url :: string where
  "indicator_url = base_url @ ''indicator_metadata/csv/by_indicator_id?indicator_ids=''"

definition get_metadata_for_indicator_as_dataframe :: "env \<Rightarrow> pyval \<Rightarrow> dataframe io" where
  "get_metadata_for_indicator_as_dataframe w indicator_ids =
     read_csv_except_http_url w (indicator_url @ joined_ids w indicator_ids)
       (NameError (''Indicator '' @ joined_ids w indicator_ids @ '' does not exist''))"

text \<open>
  The loop over a list of domain or profile IDs. The source writes it twice, with
  \<^verbatim>\<open>by_group_id?group_id=\<close> and \<^verbatim>\<open>Domain\<close> in one function and \<^verbatim>\<open>by_profile_id?profile_id=\<close> and
  \<^verbatim>\<open>Profile\<close> in the other. In the \<^verbatim>\<open>try\<close>, \<^verbatim>\<open>df = pd.concat([df, pd.read_csv(url)])\<close>; in the
  \<^verbatim>\<open>URLError\<close> handler, \<^verbatim>\<open>df = deal_with_url_error(url)\<close>.
\<close>

fun metadata_loop ::
  "env \<Rightarrow> string \<Rightarrow> string \<Rightarrow> pyval list \<Rightarrow> dataframe \<Rightarrow> dataframe io" where
  "metadata_loop w url_prefix entity [] df = ([], Inr df)"
| "metadata_loop w url_prefix entity (x # xs) df =
     (case read_csv_url w (url_prefix @ py_str w x) of
        Inr t \<Rightarrow>
          (case metadata_loop w url_prefix entity xs (pd_concat df t) of
             (rs, r) \<Rightarrow> (ReadCsv (url_prefix @ py_str w x) # rs, r))
      | Inl e \<Rightarrow>
          if isinstance_HTTPError e then
            ([ReadCsv (url_prefix @ py_str w x)],
             Inl (NameError (entity @ '' '' @ py_str w x @ '' does not exist'')))
          else if isinstance_URLError e then
            (case deal_with_url_error w (url_prefix @ py_str w x) of
               (rs, Inl e') \<Rightarrow> (ReadCsv (url_prefix @ py_str w x) # rs, Inl e')
             | (rs, Inr t) \<Rightarrow>
                 (case metadata_loop w url_prefix entity xs t of
                    (rs', r) \<Rightarrow> (ReadCsv (url_prefix @ py_str w x) # rs @ rs', r)))
          else ([ReadCsv (url_prefix @ py_str w x)], Inl e))"

definition metadata_by_id ::
  "env \<Rightarrow> string \<Rightarrow> string \<Rightarrow> pyval \<Rightarrow> dataframe io" where
  "metadata_by_id w url_prefix entity ids =
     (case ids of
        PList xs \<Rightarrow> metadata_loop w url_prefix entity xs empty_df
      | v \<Rightarrow>
          read_csv_except_http_url w (url_prefix @ py_str w v)
            (NameError (entity @ '' '' @ py_str w v @ '' does not exist'')))"

definition domain_url :: string where
  "domain_url = base_url @ ''indicator_metadata/csv/by_group_id?group_id=''"

definition profile_url :: string where
  "profile_url = base_url @ ''indicator_metadata/csv/by_profile_id?profile_id=''"

definition get_metadata_for_domain_as_dataframe :: "env \<Rightarrow> pyval \<Rightarrow> dataframe io" where
  "get_metadata_for_domain_as_dataframe w group_ids =
     metadata_by_id w domain_url ''Domain'' group_ids"

definition get_metadata_for_profile_as_dataframe :: "env \<Rightarrow> pyval \<Rightarrow> dataframe io" where
  "get_metadata_for_profile_as_dataframe w profile_ids =
     metadata_by_id w profile_url ''Profile'' profile_ids"

text \<open>
  \<^verbatim>\<open>get_metadata\<close>: \<^verbatim>\<open>df = a(); df = pd.concat([df, b()])\<close> runs \<open>a\<close>, then \<open>b\<close>, and joins
  the tables. The chain of tests is the source's; its last test, that all three arguments
  are falsy, is what remains when the seven before it have failed.
\<close>

definition concat_io :: "dataframe io \<Rightarrow> dataframe io \<Rightarrow> dataframe io" where
  "concat_io a b = bind_io a (\<lambda>df. bind_io b (\<lambda>t. pure_io (Inr (pd_concat df t))))"

definition get_metadata :: "env \<Rightarrow> pyval \<Rightarrow> pyval \<Rightarrow> pyval \<Rightarrow> dataframe io" where
  "get_metadata w indicator_ids domain_ids profile_ids =
     (if truthy indicator_ids \<and> truthy domain_ids \<and> truthy profile_ids then
        concat_io
          (concat_io (get_metadata_for_profile_as_dataframe w profile_ids)
                     (get_metadata_for_domain_as_dataframe w domain_ids))
          (get_metadata_for_indicator_as_dataframe w indicator_ids)
      else if truthy indicator_ids \<and> truthy domain_ids then
        concat_io (get_metadata_for_domain_as_dataframe w domain_ids)
                  (get_metadata_for_indicator_as_dataframe w indicator_ids)
      else if truthy indicator_ids \<and> truthy profile_ids then
        concat_io (get_metadata_for_profile_as_dataframe w profile_ids)
                  (get_metadata_for_indicator_as_dataframe w indicator_ids)
      else if truthy domain_ids \<and> truthy profile_ids then
        concat_io (get_metadata_for_profile_as_dataframe w profile_ids)
                  (get_metadata_for_domain_as_dataframe w domain_ids)
      else if truthy profile_ids then get_metadata_for_profile_as_dataframe w profile_ids
      else if truthy domain_ids then get_metadata_for_domain_as_dataframe w domain_ids
      else if truthy indicator_ids then get_metadata_for_indicator_as_dataframe w indicator_ids
      else ([], Inl (NameError
        ''At least one of indicator_ids, domain_ids, or profile_ids must be provided.'')))"

section \<open>retrieve_data\<close>

text \<open>
  \<^verbatim>\<open>get_data_by_indicator_ids\<close>. \<^verbatim>\<open>any(isinstance(ind, int) ...)\<close> holds for a bool too;
  \<^verbatim>\<open>','.join\<close> of a list with an element that is not a str raises \<^verbatim>\<open>TypeError\<close>. The profile id
  is taken to hold no brace, so that \<^verbatim>\<open>str.format\<close> leaves it as it is.
\<close>

fun is_int :: "pyval \<Rightarrow> bool" where
  "is_int (PInt i) = True"
| "is_int (PBool b) = True"
| "is_int v = False"

fun str_items :: "pyval list \<Rightarrow> exn + string list" where
  "str_items [] = Inr []"
| "str_items (PStr s # vs) = (case str_items vs of Inl e \<Rightarrow> Inl e | Inr ss \<Rightarrow> Inr (s # ss))"
| "str_items (v # vs) = Inl TypeError"

definition join_ids :: "env \<Rightarrow> pyval \<Rightarrow> exn + string" where
  "join_ids w ids =
     (case ids of
        PList xs \<Rightarrow>
          if list_ex is_int xs then Inr (comma_join (map (py_str w) xs))
          else (case str_items xs of Inl e \<Rightarrow> Inl e | Inr ss \<Rightarrow> Inr (comma_join ss))
      | v \<Rightarrow> Inr (py_str w v))"

definition get_data_by_indicator_ids ::
  "env \<Rightarrow> pyval \<Rightarrow> pyval \<Rightarrow> pyval \<Rightarrow> pyval \<Rightarrow> pyval \<Rightarrow> dataframe io" where
  "get_data_by_indicator_ids w indicator_ids area_type_id parent_area_type_id profile_id
       include_sortable_time_periods =
     (let url_addition =
            (if truthy profile_id \<and> \<not> truthy include_sortable_time_periods then
               ''&profile_id='' @ py_str w profile_id
             else if truthy include_sortable_time_periods \<and> \<not> truthy profile_id then
               ''&include_sortable_time_periods=yes''
             else if truthy profile_id \<and> truthy include_sortable_time_periods then
               ''&profile_id='' @ py_str w profile_id @ ''&include_sortable_time_periods=yes''
             else [])
      in case join_ids w indicator_ids of
           Inl e \<Rightarrow> ([], Inl e)
         | Inr ids \<Rightarrow>
             read_csv_except_url w
               (base_url @ ''all_data/csv/by_indicator_id?indicator_ids='' @ ids
                @ ''&child_area_type_id='' @ py_str w area_type_id
                @ ''&parent_area_type_id='' @ py_str w parent_area_type_id @ url_addition))"

text \<open>
  \<^verbatim>\<open>get_all_data_for_profile\<close>. The area types are the argument wrapped in a list when
  \<^verbatim>\<open>type(area_type_id) == int\<close>, the argument itself when it is anything else but None, and
  the profile's area type IDs when it is None; the \<^verbatim>\<open>for\<close> loop then iterates over them.
\<close>

definition profile_data_url :: "env \<Rightarrow> pyval \<Rightarrow> pyval \<Rightarrow> pyval \<Rightarrow> string" where
  "profile_data_url w profile_id parent_area_type_id area =
     base_url @ ''all_data/csv/by_profile_id?child_area_type_id='' @ py_str w area
       @ ''&parent_area_type_id='' @ py_str w parent_area_type_id
       @ ''&profile_id='' @ py_str w profile_id"

definition resolve_area_types :: "env \<Rightarrow> pyval \<Rightarrow> pyval \<Rightarrow> pyval io" where
  "resolve_area_types w profile_id area_type_id =
     (case area_type_id of
        PNone \<Rightarrow>
          bind_io (get_area_type_ids_for_profile w profile_id) (\<lambda>ids. pure_io (Inr (PList ids)))
      | PInt i \<Rightarrow> ([], Inr (PList [PInt i]))
      | v \<Rightarrow> ([], Inr v))"

fun profile_data_loop ::
  "env \<Rightarrow> pyval \<Rightarrow> pyval \<Rightarrow> pyval list \<Rightarrow> dataframe \<Rightarrow> dataframe io" where
  "profile_data_loop w profile_id parent [] df = ([], Inr df)"
| "profile_data_loop w profile_id parent (area # rest) df =
     (case read_csv_url w (profile_data_url w profile_id parent area) of
        Inr t \<Rightarrow>
          (case profile_data_loop w profile_id parent rest (pd_concat df t) of
             (rs, r) \<Rightarrow> (ReadCsv (profile_data_url w profile_id parent area) # rs, r))
      | Inl e \<Rightarrow>
          if isinstance_HTTPError e then
            ([ReadCsv (profile_data_url w profile_id parent area)],
             Inl (Exception ''There has been a server error with Fingertips for this request. ''))
          else if isinstance_URLError e then
            (case deal_with_url_error w (profile_data_url w profile_id parent area) of
               (rs, Inl e') \<Rightarrow> (ReadCsv (profile_data_url w profile_id parent area) # rs, Inl e')
             | (rs, Inr t) \<Rightarrow>
                 (case profile_data_loop w profile_id parent rest (pd_concat df t) of
                    (rs', r) \<Rightarrow>
                      (ReadCsv (profile_data_url w profile_id parent area) # rs @ rs', r)))
          else ([ReadCsv (profile_data_url w profile_id parent area)], Inl e))"

definition filter_area_codes :: "pyval \<Rightarrow> dataframe \<Rightarrow> exn + dataframe" where
  "filter_area_codes filter_by_area_codes df =
     (if truthy filter_by_area_codes then
        (case (case filter_by_area_codes of
                 PList codes \<Rightarrow> loc_isin df ''Area Code'' codes
               | PStr code \<Rightarrow> loc_eq df ''Area Code'' code
               | v \<Rightarrow> Inr df) of
           Inl e \<Rightarrow> Inl e
         | Inr df' \<Rightarrow> reset_index df')
      else Inr df)"

definition get_all_data_for_profile ::
  "env \<Rightarrow> pyval \<Rightarrow> pyval \<Rightarrow> pyval \<Rightarrow> pyval \<Rightarrow> dataframe io" where
  "get_all_data_for_profile w profile_id parent_area_type_id area_type_id filter_by_area_codes =
     bind_io (resolve_area_types w profile_id area_type_id)
       (\<lambda>area_types.
          bind_io (pure_io (py_iter area_types))
            (\<lambda>areas.
               bind_io (profile_data_loop w profile_id parent_area_type_id areas empty_df)
                 (\<lambda>df. pure_io (filter_area_codes filter_by_area_codes df))))"

section \<open>Notions the properties are stated with\<close>

text \<open>An object holds the field; the dict key its value under the field gives, if hashable.\<close>

definition has_field :: "string \<Rightarrow> pyval \<Rightarrow> bool" where
  "has_field attr item = (case item of PDict d \<Rightarrow> map_of d attr \<noteq> None | _ \<Rightarrow> False)"

definition key_field_value :: "string \<Rightarrow> pyval \<Rightarrow> pykey option" where
  "key_field_value attr item =
     (case item of
        PDict d \<Rightarrow> (case map_of d attr of None \<Rightarrow> None | Some name \<Rightarrow> hash_key name)
      | _ \<Rightarrow> None)"

text \<open>The key and the value that pick mode takes from one object of the response.\<close>

definition picked_key :: "string \<Rightarrow> pyval \<Rightarrow> pykey option" where
  "picked_key key js = (case py_get js key of Inl e \<Rightarrow> None | Inr kv \<Rightarrow> hash_key kv)"

definition picked_value :: "string option \<Rightarrow> pyval \<Rightarrow> pyval option" where
  "picked_value val js =
     (case val of
        None \<Rightarrow> Some js
      | Some f \<Rightarrow> (case py_get js f of Inl e \<Rightarrow> None | Inr v \<Rightarrow> Some v))"

text \<open>A profile whose name is a string, and one whose name holds the search term, cases aside.\<close>

definition named_profile :: "pyval \<Rightarrow> bool" where
  "named_profile p =
     (case p of
        PDict d \<Rightarrow> (case map_of d ''Name'' of Some (PStr s) \<Rightarrow> True | _ \<Rightarrow> False)
      | _ \<Rightarrow> False)"

definition name_matches :: "string \<Rightarrow> pyval \<Rightarrow> bool" where
  "name_matches term p =
     (case p of
        PDict d \<Rightarrow>
          (case map_of d ''Name'' of
             Some (PStr s) \<Rightarrow> py_in (str_lower term) (str_lower s)
           | _ \<Rightarrow> False)
      | _ \<Rightarrow> False)"

text \<open>One string occurs in another as a contiguous run.\<close>

definition occurs_in :: "string \<Rightarrow> string \<Rightarrow> bool" where
  "occurs_in p s = (\<exists>a b. s = a @ p @ b)"

text \<open>
  The table one ID or one area type contributes: the one \<^verbatim>\<open>pd.read_csv\<close> returns, or the one
  the request without verification returns after a URL error.
\<close>

definition fetched_table :: "env \<Rightarrow> string \<Rightarrow> dataframe option" where
  "fetched_table w url =
     (case read_csv_url w url of
        Inr t \<Rightarrow> Some t
      | Inl e \<Rightarrow>
          if isinstance_URLError e \<and> \<not> isinstance_HTTPError e then
            (case snd (deal_with_url_error w url) of Inr t \<Rightarrow> Some t | Inl e' \<Rightarrow> None)
          else None)"

definition fetched_rows :: "env \<Rightarrow> string \<Rightarrow> (int \<times> (string \<times> cell) list) list" where
  "fetched_rows w url = (case fetched_table w url of None \<Rightarrow> [] | Some t \<Rightarrow> rows t)"

fun is_ReadCsv :: "request \<Rightarrow> bool" where
  "is_ReadCsv (ReadCsv url) = True"
| "is_ReadCsv (HttpGet verify url) = False"

fun csv_ok :: "exn + dataframe \<Rightarrow> bool" where
  "csv_ok (Inr t) = True"
| "csv_ok (Inl e) = False"

text \<open>The table of \<^verbatim>\<open>get_all_data_for_profile\<close> as it stands after the loop, before any filter.\<close>

definition merged_profile_data :: "env \<Rightarrow> pyval \<Rightarrow> pyval \<Rightarrow> pyval \<Rightarrow> dataframe io" where
  "merged_profile_data w profile_id parent area_type_id =
     bind_io (resolve_area_types w profile_id area_type_id)
       (\<lambda>area_types.
          bind_io (pure_io (py_iter area_types))
            (\<lambda>areas. profile_data_loop w profile_id parent areas empty_df))"

text \<open>Every row has one of the codes in its area code column; the index counts from zero.\<close>

definition only_area_codes :: "pyval list \<Rightarrow> dataframe \<Rightarrow> bool" where
  "only_area_codes codes df =
     list_all (\<lambda>ir. list_ex (isin_match (cell_at (snd ir) ''Area Code'')) codes) (rows df)"

definition index_is_reset :: "dataframe \<Rightarrow> bool" where
  "index_is_reset df = (map fst (rows df) = map int [0..<length (rows df)])"

fun list_or_str :: "pyval \<Rightarrow> bool" where
  "list_or_str (PList xs) = True"
| "list_or_str (PStr s) = True"
| "list_or_str v = False"

text \<open>A filter as the docstring types it: a str, or a list of str.\<close>

fun is_str :: "pyval \<Rightarrow> bool" where
  "is_str (PStr s) = True"
| "is_str v = False"

fun str_codes :: "pyval \<Rightarrow> bool" where
  "str_codes (PStr s) = True"
| "str_codes (PList xs) = list_all is_str xs"
| "str_codes v = False"

fun is_list :: "pyval \<Rightarrow> bool" where
  "is_list (PList xs) = True"
| "is_list v = False"

fun given_codes :: "pyval \<Rightarrow> pyval list" where
  "given_codes (PList codes) = codes"
| "given_codes v = [v]"

section \<open>Concrete services\<close>

text \<open>
  Small instances of the outside world, on which the operations are run. A body is named,
  not spelled out; \<open>json_loads\<close> gives the value it parses to.
\<close>

definition no_csv :: "string \<Rightarrow> exn + dataframe" where
  "no_csv s = Inl (OtherError ''EmptyDataError'')"

definition one_row :: "string \<Rightarrow> string \<Rightarrow> dataframe" where
  "one_row col v = \<lparr>columns = [col], rows = [(0, [(col, Txt v)])]\<rparr>"

definition regions_table :: dataframe where
  "regions_table =
     \<lparr>columns = [''Area Code''],
      rows = [(0, [(''Area Code'', Txt ''E12000001'')]),
              (1, [(''Area Code'', Txt ''E12000002'')])]\<rparr>"

definition url_table :: "string \<Rightarrow> dataframe" where
  "url_table url = one_row ''url'' url"

definition env_json :: "string \<Rightarrow> pyval \<Rightarrow> env" where
  "env_json url v =
     \<lparr>requests_get = (\<lambda>verify u.
        if u = url then Inr ''body'' else Inl (OtherError ''ConnectionError'')),
      json_loads = (\<lambda>s. if s = ''body'' then Inr v else Inl ValueError),
      read_csv_url = (\<lambda>u. Inl URLError),
      read_csv_text = no_csv,
      repr_compound = (\<lambda>v. [])\<rparr>"

definition ages :: "pyval list" where
  "ages = [PDict [(''Id'', PInt 1), (''Name'', PStr ''< 1 yr'')],
           PDict [(''Id'', PInt 2), (''Name'', PStr ''1-4 yrs'')]]"

definition profile_A :: pyval where
  "profile_A = PDict [(''Id'', PInt 18), (''Name'', PStr ''Fingertips Search A'')]"

definition profile_B :: pyval where
  "profile_B = PDict [(''Id'', PInt 19), (''Name'', PStr ''Fingertips Search B'')]"

definition indicator_metadata :: "string \<Rightarrow> pyval" where
  "indicator_metadata method =
     PDict [(''90366'',
       PDict [(''IID'', PInt 90366),
              (''Unit'', PDict [(''Id'', PInt 7), (''Value'', PInt 100000)]),
              (''ConfidenceIntervalMethod'', PDict [(''Id'', PInt 1), (''Name'', PStr method)])])]"

text \<open>
  A service for the CSV endpoints: \<open>strict url\<close> is what \<^verbatim>\<open>pd.read_csv(url)\<close> does, and a
  request without verification gets the body \<open>url\<close>, which parses to \<open>relaxed url\<close>.
\<close>

definition env_csv ::
  "(string \<Rightarrow> exn + dataframe) \<Rightarrow> (string \<Rightarrow> exn + dataframe) \<Rightarrow> env" where
  "env_csv strict relaxed =
     \<lparr>requests_get = (\<lambda>verify url.
        if verify then Inl (OtherError ''ConnectionError'') else Inr url),
      json_loads = (\<lambda>s. Inl ValueError),
      read_csv_url = strict,
      read_csv_text = relaxed,
      repr_compound = (\<lambda>v. [])\<rparr>"

text \<open>
  Every CSV URL gives a table of one row that holds the URL; every CSV URL gives the two
  regions; every \<^verbatim>\<open>pd.read_csv\<close> meets HTTP 404; \<^verbatim>\<open>pd.read_csv\<close> meets a URL error for domain 2
  alone; \<^verbatim>\<open>pd.read_csv\<close> meets HTTP 404 for indicator 999999 and a URL error elsewhere.
\<close>

definition service_ok :: env where
  "service_ok = env_csv (\<lambda>url. Inr (url_table url)) no_csv"

definition service_regions :: env where
  "service_regions = env_csv (\<lambda>url. Inr regions_table) no_csv"

definition service_404 :: env where
  "service_404 = env_csv (\<lambda>url. Inl (HTTPError 404)) (\<lambda>body. Inr (url_table body))"

definition service_domain_2 :: env where
  "service_domain_2 =
     env_csv (\<lambda>url. if url = domain_url @ ''2'' then Inl URLError else Inr (url_table url))
       (\<lambda>body. Inr (url_table body))"

definition service_999999 :: env where
  "service_999999 =
     env_csv (\<lambda>url. if url = indicator_url @ ''999999'' then Inl (HTTPError 404) else Inl URLError)
       (\<lambda>body. Inr (url_table body))"

section \<open>Proofs\<close>

subsection \<open>Dicts and the two normalizers\<close>

lemma dom_dict_store: "fst ` set (dict_store k v d) = insert k (fst ` set d)"
  by (induction d) auto

lemma ran_dict_store: "snd ` set (dict_store k v d) \<subseteq> insert v (snd ` set d)"
  by (induction d) auto

lemma map_of_dict_store: "map_of (dict_store k v d) = (map_of d)(k \<mapsto> v)"
  by (induction d) auto

lemma distinct_dict_store:
  "distinct (map fst d) \<Longrightarrow> distinct (map fst (dict_store k v d))"
  by (induction d) (auto simp: dom_dict_store)

lemma dict_store_new: "k \<notin> fst ` set d \<Longrightarrow> dict_store k v d = d @ [(k, v)]"
  by (induction d) auto

lemma map_of_dict_remove: "map_of (dict_remove k d) k = None"
  by (induction d) (auto simp: dict_remove_def)

lemma get_json_env_json: "get_json (env_json url v) url = ([HttpGet True url], Inr v)"
  by (simp add: get_json_def env_json_def)

lemma make_request_loop_inv:
  "list_all (has_field attr) items \<Longrightarrow>
   (case make_request_loop (Some attr) items data of
      Inl e \<Rightarrow> e = TypeError \<and> (\<exists>item \<in> set items. key_field_value attr item = None)
    | Inr res \<Rightarrow>
        (\<forall>item \<in> set items. key_field_value attr item \<noteq> None) \<and>
        fst ` set res = fst ` set data \<union> {k. \<exists>item \<in> set items. key_field_value attr item = Some k} \<and>
        (\<forall>v \<in> snd ` set res. v \<in> snd ` set data \<or> (\<exists>d. v = PDict d \<and> map_of d attr = None)) \<and>
        (distinct (map fst data) \<longrightarrow> distinct (map fst res)))"
proof (induction items arbitrary: data)
  case Nil
  then show ?case by simp
next
  case (Cons item items)
  from Cons.prems have hf: "has_field attr item" and rest: "list_all (has_field attr) items"
    by simp_all
  from hf obtain d name where item: "item = PDict d" and name: "map_of d attr = Some name"
    by (auto simp: has_field_def split: pyval.splits)
  show ?case
  proof (cases "hash_key name")
    case None
    then show ?thesis using item name by (simp add: key_field_value_def)
  next
    case (Some k)
    let ?data' = "dict_store k (PDict (dict_remove attr d)) data"
    have step: "make_request_loop (Some attr) (item # items) data = make_request_loop (Some attr) items ?data'"
      using item name Some by simp
    have kv: "key_field_value attr item = Some k"
      using item name Some by (simp add: key_field_value_def)
    note IH = Cons.IH [OF rest, of ?data']
    show ?thesis
    proof (cases "make_request_loop (Some attr) items ?data'")
      case (Inl e)
      then show ?thesis using IH step by auto
    next
      case (Inr res)
      with IH have a: "\<forall>item \<in> set items. key_field_value attr item \<noteq> None"
        and b: "fst ` set res = fst ` set ?data' \<union> {k. \<exists>item \<in> set items. key_field_value attr item = Some k}"
        and c: "\<forall>v \<in> snd ` set res. v \<in> snd ` set ?data' \<or> (\<exists>d. v = PDict d \<and> map_of d attr = None)"
        and dd: "distinct (map fst ?data') \<longrightarrow> distinct (map fst res)"
        by simp_all
      have 1: "\<forall>it \<in> set (item # items). key_field_value attr it \<noteq> None"
        using a kv by simp
      have 2: "fst ` set res = fst ` set data \<union> {k. \<exists>it \<in> set (item # items). key_field_value attr it = Some k}"
        using b kv by (auto simp: dom_dict_store)
      have 3: "\<forall>v \<in> snd ` set res. v \<in> snd ` set data \<or> (\<exists>d. v = PDict d \<and> map_of d attr = None)"
      proof
        fix v assume "v \<in> snd ` set res"
        with c have "v \<in> snd ` set ?data' \<or> (\<exists>d. v = PDict d \<and> map_of d attr = None)" by blast
        moreover have "snd ` set ?data' \<subseteq> insert (PDict (dict_remove attr d)) (snd ` set data)"
          by (rule ran_dict_store)
        ultimately show "v \<in> snd ` set data \<or> (\<exists>d. v = PDict d \<and> map_of d attr = None)"
          using map_of_dict_remove [of attr d] by blast
      qed
      have 4: "distinct (map fst data) \<longrightarrow> distinct (map fst res)"
      proof
        assume "distinct (map fst data)"
        then have "distinct (map fst ?data')" by (rule distinct_dict_store)
        with dd show "distinct (map fst res)" by simp
      qed
      show ?thesis using step Inr 1 2 3 4 by simp
    qed
  qed
qed

text \<open>
  C3. Pop mode on a JSON array of objects that all hold the key field: the requests are
  those of the fetch; the call fails only with \<^verbatim>\<open>TypeError\<close>, when some key field value is
  unhashable; when it returns, no value record holds the key field, the keys of the result
  are exactly the key field values of the input objects, and no key occurs twice.
\<close>

theorem make_request_pop_mode:
  assumes "get_json w url = (rs, Inr (PList items))"
    and "list_all (has_field attr) items"
  shows "fst (make_request w url (Some attr)) = rs \<and>
    (case snd (make_request w url (Some attr)) of
       Inl e \<Rightarrow> e = TypeError \<and> (\<exists>item \<in> set items. key_field_value attr item = None)
     | Inr data \<Rightarrow>
         (\<forall>v \<in> snd ` set data. \<exists>d. v = PDict d \<and> map_of d attr = None) \<and>
         fst ` set data = {k. \<exists>item \<in> set items. key_field_value attr item = Some k} \<and>
         distinct (map fst data))"
proof -
  have eq: "make_request w url (Some attr) = (rs, make_request_loop (Some attr) items [])"
    using assms(1) by (simp add: make_request_def bind_io_def pure_io_def normalize_pop_def)
  show ?thesis
    using make_request_loop_inv [OF assms(2), of "[]"] eq
    by (auto split: sum.splits)
qed

text \<open>
  The ages, keyed by name.
\<close>

theorem make_request_pop_mode_witness:
  "get_json (env_json (base_url @ ''ages'') (PList ages)) (base_url @ ''ages'')
     = ([HttpGet True (base_url @ ''ages'')], Inr (PList ages)) \<and>
   list_all (has_field ''Name'') ages \<and>
   make_request (env_json (base_url @ ''ages'') (PList ages)) (base_url @ ''ages'') (Some ''Name'')
     = ([HttpGet True (base_url @ ''ages'')],
        Inr [(KStr ''< 1 yr'', PDict [(''Id'', PInt 1)]),
             (KStr ''1-4 yrs'', PDict [(''Id'', PInt 2)])]) \<and>
   {k. \<exists>item \<in> set ages. key_field_value ''Name'' item = Some k}
     = fst ` set [(KStr ''< 1 yr'', PDict [(''Id'', PInt 1)]), (KStr ''1-4 yrs'', PDict [(''Id'', PInt 2)])]"
proof -
  let ?w = "env_json (base_url @ ''ages'') (PList ages)"
  have h1: "get_json ?w (base_url @ ''ages'') = ([HttpGet True (base_url @ ''ages'')], Inr (PList ages))"
    by (rule get_json_env_json)
  have h2: "list_all (has_field ''Name'') ages"
    by (simp add: has_field_def ages_def)
  have r: "make_request ?w (base_url @ ''ages'') (Some ''Name'')
     = ([HttpGet True (base_url @ ''ages'')],
        Inr [(KStr ''< 1 yr'', PDict [(''Id'', PInt 1)]),
             (KStr ''1-4 yrs'', PDict [(''Id'', PInt 2)])])"
    apply (simp only: make_request_def h1)
    apply (simp add: bind_io_def pure_io_def normalize_pop_def dict_remove_def ages_def)
    done
  show ?thesis
    using make_request_pop_mode [OF h1 h2] h1 h2 r by simp
qed

lemma pick_loop_lookup:
  "pick_loop key val items data = Inr res \<Longrightarrow>
   map_of res kk =
     (case filter (\<lambda>js. picked_key key js = Some kk) items of
        [] \<Rightarrow> map_of data kk
      | m # ms \<Rightarrow> picked_value val (last (m # ms)))"
proof (induction items arbitrary: data)
  case Nil
  then show ?case by simp
next
  case (Cons js rest)
  from Cons.prems obtain v kv k where
    v: "(case val of None \<Rightarrow> Inr js | Some f \<Rightarrow> py_get js f) = Inr v"
    and kv: "py_get js key = Inr kv" and k: "hash_key kv = Some k"
    and rec: "pick_loop key val rest (dict_store k v data) = Inr res"
    by (auto split: sum.splits option.splits)
  have pk: "picked_key key js = Some k" using kv k by (simp add: picked_key_def)
  have pv: "picked_value val js = Some v"
    using v by (auto simp: picked_value_def split: option.splits sum.splits)
  note IH = Cons.IH [OF rec]
  show ?case
  proof (cases "filter (\<lambda>js. picked_key key js = Some kk) rest")
    case Nil
    then show ?thesis using IH pk pv by (auto simp: map_of_dict_store)
  next
    case (Cons m ms)
    then show ?thesis using IH by simp
  qed
qed

lemma pick_loop_returns:
  "list_all (\<lambda>js. picked_key key js \<noteq> None) items \<Longrightarrow> \<exists>res. pick_loop key val items data = Inr res"
proof (induction items arbitrary: data)
  case Nil
  then show ?case by simp
next
  case (Cons js rest)
  from Cons.prems obtain k where pk: "picked_key key js = Some k"
    and r: "list_all (\<lambda>js. picked_key key js \<noteq> None) rest" by auto
  from pk obtain d where d: "js = PDict d"
    by (cases js) (auto simp: picked_key_def)
  obtain v where v: "(case val of None \<Rightarrow> Inr js | Some f \<Rightarrow> py_get js f) = Inr v"
    using d by (cases val) auto
  from pk obtain kv where kv: "py_get js key = Inr kv" "hash_key kv = Some k"
    by (auto simp: picked_key_def split: sum.splits)
  show ?case using Cons.IH [OF r, of "dict_store k v data"] v kv by simp
qed

lemma get_data_in_dict_unfold:
  "get_json w url = (rs, Inr json_list) \<Longrightarrow>
   get_data_in_dict w url key val = (rs, normalize_pick key val json_list)"
  by (simp add: get_data_in_dict_def bind_io_def pure_io_def)

text \<open>
  C9. Pick mode on a JSON array. With no key given, an empty array raises \<^verbatim>\<open>IndexError\<close>,
  and an array whose first object has a first key behaves as if that key had been given.
  With a key, a call that returns maps each key to what the last object with that key
  gives: the value field (None when the object lacks it) when one is set, the whole object
  otherwise; a key that no object has is not in the result. The call returns whenever
  every element is an object whose key field value is hashable.
\<close>

theorem get_data_in_dict_pick_mode:
  assumes "get_json w url = (rs, Inr (PList items))"
  shows "(items = [] \<longrightarrow> get_data_in_dict w url None val = (rs, Inl IndexError)) \<and>
    (\<forall>k0 v0 d rest. items = PDict ((k0, v0) # d) # rest \<longrightarrow>
       get_data_in_dict w url None val = get_data_in_dict w url (Some k0) val) \<and>
    (\<forall>res. snd (get_data_in_dict w url (Some key) val) = Inr res \<longrightarrow>
       (\<forall>kk. map_of res kk =
          (case filter (\<lambda>js. picked_key key js = Some kk) items of
             [] \<Rightarrow> None
           | m # ms \<Rightarrow> picked_value val (last (m # ms))))) \<and>
    (list_all (\<lambda>js. picked_key key js \<noteq> None) items \<longrightarrow>
       (\<exists>res. get_data_in_dict w url (Some key) val = (rs, Inr res)))"
proof -
  note unf = get_data_in_dict_unfold [OF assms]
  have 1: "items = [] \<longrightarrow> get_data_in_dict w url None val = (rs, Inl IndexError)"
    by (simp add: unf normalize_pick_def default_key_def)
  have 2: "\<forall>k0 v0 d rest. items = PDict ((k0, v0) # d) # rest \<longrightarrow>
       get_data_in_dict w url None val = get_data_in_dict w url (Some k0) val"
    by (simp add: unf normalize_pick_def default_key_def)
  have 3: "\<forall>res. snd (get_data_in_dict w url (Some key) val) = Inr res \<longrightarrow>
       (\<forall>kk. map_of res kk =
          (case filter (\<lambda>js. picked_key key js = Some kk) items of
             [] \<Rightarrow> None
           | m # ms \<Rightarrow> picked_value val (last (m # ms))))"
  proof (intro allI impI)
    fix res kk
    assume "snd (get_data_in_dict w url (Some key) val) = Inr res"
    then have "pick_loop key val items [] = Inr res"
      by (simp add: unf normalize_pick_def)
    from pick_loop_lookup [OF this, of kk]
    show "map_of res kk =
          (case filter (\<lambda>js. picked_key key js = Some kk) items of
             [] \<Rightarrow> None
           | m # ms \<Rightarrow> picked_value val (last (m # ms)))"
      by (simp split: list.splits)
  qed
  have 4: "list_all (\<lambda>js. picked_key key js \<noteq> None) items \<longrightarrow>
       (\<exists>res. get_data_in_dict w url (Some key) val = (rs, Inr res))"
    using pick_loop_returns [of key items val "[]"]
    by (simp add: unf normalize_pick_def)
  from 1 2 3 4 show ?thesis by blast
qed

text \<open>
  The ages picked by \<^verbatim>\<open>Id\<close>, the default key, with \<^verbatim>\<open>Name\<close> as value; and an empty response.
\<close>

theorem get_data_in_dict_pick_mode_witness:
  "get_data_in_dict (env_json (base_url @ ''ages'') (PList [])) (base_url @ ''ages'') None None
     = ([HttpGet True (base_url @ ''ages'')], Inl IndexError) \<and>
   get_data_in_dict (env_json (base_url @ ''ages'') (PList ages)) (base_url @ ''ages'') None None
     = get_data_in_dict (env_json (base_url @ ''ages'') (PList ages)) (base_url @ ''ages'') (Some ''Id'') None \<and>
   get_data_in_dict (env_json (base_url @ ''ages'') (PList ages)) (base_url @ ''ages'') (Some ''Id'') (Some ''Name'')
     = ([HttpGet True (base_url @ ''ages'')], Inr [(KInt 1, PStr ''< 1 yr''), (KInt 2, PStr ''1-4 yrs'')]) \<and>
   map_of [(KInt 1, PStr ''< 1 yr''), (KInt 2, PStr ''1-4 yrs'')] (KInt 2)
     = (case filter (\<lambda>js. picked_key ''Id'' js = Some (KInt 2)) ages of
          [] \<Rightarrow> None
        | m # ms \<Rightarrow> picked_value (Some ''Name'') (last (m # ms)))"
proof -
  let ?u = "base_url @ ''ages''"
  have e: "get_json (env_json ?u (PList [])) ?u = ([HttpGet True ?u], Inr (PList []))"
    by (rule get_json_env_json)
  have a: "get_json (env_json ?u (PList ages)) ?u = ([HttpGet True ?u], Inr (PList ages))"
    by (rule get_json_env_json)
  have shape: "ages = PDict ((''Id'', PInt 1) # [(''Name'', PStr ''< 1 yr'')])
                 # [PDict [(''Id'', PInt 2), (''Name'', PStr ''1-4 yrs'')]]"
    by (simp add: ages_def)
  have r: "get_data_in_dict (env_json ?u (PList ages)) ?u (Some ''Id'') (Some ''Name'')
     = ([HttpGet True ?u], Inr [(KInt 1, PStr ''< 1 yr''), (KInt 2, PStr ''1-4 yrs'')])"
    apply (simp only: get_data_in_dict_unfold [OF a])
    apply (simp add: normalize_pick_def ages_def)
    done
  note E = get_data_in_dict_pick_mode [OF e, of None "''Id''"]
  note A = get_data_in_dict_pick_mode [OF a, of "Some ''Name''" "''Id''"]
  note A' = get_data_in_dict_pick_mode [OF a, of None "''Id''"]
  have 1: "get_data_in_dict (env_json ?u (PList [])) ?u None None = ([HttpGet True ?u], Inl IndexError)"
    using E by simp
  have 2: "get_data_in_dict (env_json ?u (PList ages)) ?u None None
     = get_data_in_dict (env_json ?u (PList ages)) ?u (Some ''Id'') None"
    using A' shape by blast
  have 3: "map_of [(KInt 1, PStr ''< 1 yr''), (KInt 2, PStr ''1-4 yrs'')] (KInt 2)
     = (case filter (\<lambda>js. picked_key ''Id'' js = Some (KInt 2)) ages of
          [] \<Rightarrow> None
        | m # ms \<Rightarrow> picked_value (Some ''Name'') (last (m # ms)))"
    using A [THEN conjunct2, THEN conjunct2, THEN conjunct1, rule_format,
             where res = "[(KInt 1, PStr ''< 1 yr''), (KInt 2, PStr ''1-4 yrs'')]" and kk = "KInt 2"] r
    by simp
  from 1 2 r 3 show ?thesis by simp
qed

subsection \<open>Profile search\<close>

lemma search_profiles_last:
  "list_all named_profile ps \<Longrightarrow>
   search_profiles term ps acc =
     Inr (case filter (name_matches term) ps of [] \<Rightarrow> acc | m # ms \<Rightarrow> last (m # ms))"
proof (induction ps arbitrary: acc)
  case Nil
  then show ?case by simp
next
  case (Cons p ps)
  from Cons.prems have np: "named_profile p" and rest: "list_all named_profile ps" by simp_all
  from np obtain d where p: "p = PDict d"
    by (cases p) (auto simp: named_profile_def)
  from np p obtain v where v: "map_of d ''Name'' = Some v"
    by (cases "map_of d ''Name''") (auto simp: named_profile_def)
  from np p v obtain s where "v = PStr s"
    by (cases v) (auto simp: named_profile_def)
  with v have s: "map_of d ''Name'' = Some (PStr s)" by simp
  have m: "name_matches term p = py_in (str_lower term) (str_lower s)"
    using p s by (simp add: name_matches_def)
  show ?case
    using Cons.IH [OF rest] p s m
    by (cases "filter (name_matches term) ps") auto
qed

lemma named_profile_truthy: "named_profile p \<Longrightarrow> truthy p"
  by (cases p) (auto simp: named_profile_def)

text \<open>
  C7. The search runs over the values of the profiles mapping in its iteration order. When
  every profile has a string name, it raises nothing and returns the last profile whose
  lowered name holds the lowered search term, or, when there is none, the string
  \<^verbatim>\<open>Profile could not be found\<close> in place of a profile object.
\<close>

theorem get_profile_by_name_last_match:
  assumes "get_all_profiles w = (rs, Inr all_profiles)"
    and "list_all named_profile (map snd all_profiles)"
  shows "get_profile_by_name w term =
    (rs, Inr (case filter (name_matches term) (map snd all_profiles) of
                [] \<Rightarrow> PStr ''Profile could not be found''
              | m # ms \<Rightarrow> last (m # ms)))"
proof (cases "filter (name_matches term) (map snd all_profiles)")
  case Nil
  then show ?thesis
    using assms search_profiles_last [OF assms(2), of "term" "PStr []"]
    by (simp add: get_profile_by_name_def bind_io_def pure_io_def)
next
  case (Cons m ms)
  have "last (m # ms) \<in> set (filter (name_matches term) (map snd all_profiles))"
    using Cons last_in_set [of "m # ms"] by simp
  then have "named_profile (last (m # ms))"
    using assms(2) by (auto simp: list_all_iff)
  then have "truthy (last (m # ms))" by (rule named_profile_truthy)
  then show ?thesis
    using assms(1) Cons search_profiles_last [OF assms(2), of "term" "PStr []"]
    by (simp add: get_profile_by_name_def bind_io_def pure_io_def)
qed

lemma str_lower_Search: "str_lower ''Search'' = ''search''"
  by (simp add: str_lower_def lower_char_def)

lemma str_lower_A: "str_lower ''Fingertips Search A'' = ''fingertips search a''"
  by (simp add: str_lower_def lower_char_def)

lemma str_lower_B: "str_lower ''Fingertips Search B'' = ''fingertips search b''"
  by (simp add: str_lower_def lower_char_def)

text \<open>
  Two profiles that both match \<^verbatim>\<open>Search\<close>: the second is returned; none matches \<^verbatim>\<open>Cancer\<close>.
\<close>

theorem get_profile_by_name_last_match_witness:
  "get_all_profiles (env_json (base_url @ ''profiles'') (PList [profile_A, profile_B]))
     = ([HttpGet True (base_url @ ''profiles'')], Inr [(KInt 18, profile_A), (KInt 19, profile_B)]) \<and>
   list_all named_profile (map snd [(KInt 18, profile_A), (KInt 19, profile_B)]) \<and>
   filter (name_matches ''Search'') (map snd [(KInt 18, profile_A), (KInt 19, profile_B)])
     = [profile_A, profile_B] \<and>
   get_profile_by_name (env_json (base_url @ ''profiles'') (PList [profile_A, profile_B])) ''Search''
     = ([HttpGet True (base_url @ ''profiles'')], Inr profile_B) \<and>
   get_profile_by_name (env_json (base_url @ ''profiles'') (PList [profile_A, profile_B])) ''Cancer''
     = ([HttpGet True (base_url @ ''profiles'')], Inr (PStr ''Profile could not be found''))"
proof -
  let ?u = "base_url @ ''profiles''"
  let ?w = "env_json ?u (PList [profile_A, profile_B])"
  have j: "get_json ?w ?u = ([HttpGet True ?u], Inr (PList [profile_A, profile_B]))"
    by (rule get_json_env_json)
  have h1: "get_all_profiles ?w = ([HttpGet True ?u], Inr [(KInt 18, profile_A), (KInt 19, profile_B)])"
    unfolding get_all_profiles_def get_data_in_dict_unfold [OF j]
    by (simp add: normalize_pick_def default_key_def profile_A_def profile_B_def)
  have h2: "list_all named_profile (map snd [(KInt 18, profile_A), (KInt 19, profile_B)])"
    by (simp add: named_profile_def profile_A_def profile_B_def)
  have f1: "filter (name_matches ''Search'') (map snd [(KInt 18, profile_A), (KInt 19, profile_B)])
     = [profile_A, profile_B]"
    by (simp add: name_matches_def profile_A_def profile_B_def str_lower_Search str_lower_A str_lower_B)
  have f2: "filter (name_matches ''Cancer'') (map snd [(KInt 18, profile_A), (KInt 19, profile_B)]) = []"
    by (simp add: name_matches_def profile_A_def profile_B_def str_lower_A str_lower_B
          str_lower_def [of "''Cancer''"] lower_char_def)
  show ?thesis
    using get_profile_by_name_last_match [OF h1 h2, of "''Search''"]
      get_profile_by_name_last_match [OF h1 h2, of "''Cancer''"] h1 h2 f1 f2
    by simp
qed

subsection \<open>Multiplier and calculation method\<close>

lemma starts_with_iff: "starts_with p s \<longleftrightarrow> (\<exists>b. s = p @ b)"
  by (induction p s rule: starts_with.induct) auto

lemma py_in_iff: "py_in p s \<longleftrightarrow> occurs_in p s"
proof (induction s)
  case Nil
  show ?case by (auto simp: occurs_in_def)
next
  case (Cons c cs)
  have "occurs_in p (c # cs) \<longleftrightarrow> (\<exists>b. c # cs = p @ b) \<or> occurs_in p cs"
    unfolding occurs_in_def
  proof
    assume "\<exists>a b. c # cs = a @ p @ b"
    then obtain a b where ab: "c # cs = a @ p @ b" by blast
    show "(\<exists>b. c # cs = p @ b) \<or> (\<exists>a b. cs = a @ p @ b)"
    proof (cases a)
      case Nil
      with ab show ?thesis by auto
    next
      case (Cons x a')
      with ab have "cs = a' @ p @ b" by simp
      then show ?thesis by blast
    qed
  next
    assume "(\<exists>b. c # cs = p @ b) \<or> (\<exists>a b. cs = a @ p @ b)"
    then show "\<exists>a b. c # cs = a @ p @ b"
    proof
      assume "\<exists>b. c # cs = p @ b"
      then obtain b where "c # cs = [] @ p @ b" by auto
      then show ?thesis by blast
    next
      assume "\<exists>a b. cs = a @ p @ b"
      then obtain a b where "c # cs = (c # a) @ p @ b" by auto
      then show ?thesis by blast
    qed
  qed
  then show ?case using Cons.IH by (simp add: starts_with_iff)
qed

text \<open>
  C6, as amended. When the indicator's metadata holds a \<^verbatim>\<open>Unit\<close> object and a
  \<^verbatim>\<open>ConfidenceIntervalMethod\<close> object whose \<^verbatim>\<open>Name\<close> is a string, the operation returns the
  unit's \<^verbatim>\<open>Value\<close> (None when the unit has none) with \<^verbatim>\<open>Wilson\<close> when the lowered name holds
  \<^verbatim>\<open>wilson\<close>, with \<^verbatim>\<open>Byar\<close> when it holds \<^verbatim>\<open>byar\<close> and not \<^verbatim>\<open>wilson\<close>, and with None when it
  holds neither.
\<close>

theorem multiplier_and_calculation_classified:
  assumes "get_metadata_for_indicator w n = (rs, Inr (PDict md))"
    and "map_of md ''Unit'' = Some (PDict unit)"
    and "map_of md ''ConfidenceIntervalMethod'' = Some (PDict method)"
    and "map_of method ''Name'' = Some (PStr name)"
  shows "\<exists>calc. get_multiplier_and_calculation_for_indicator w n
        = (rs, Inr ((case map_of unit ''Value'' of None \<Rightarrow> PNone | Some v \<Rightarrow> v), calc)) \<and>
      (occurs_in ''wilson'' (str_lower name) \<longrightarrow> calc = PStr ''Wilson'') \<and>
      (occurs_in ''byar'' (str_lower name) \<and> \<not> occurs_in ''wilson'' (str_lower name)
         \<longrightarrow> calc = PStr ''Byar'') \<and>
      (\<not> occurs_in ''byar'' (str_lower name) \<and> \<not> occurs_in ''wilson'' (str_lower name)
         \<longrightarrow> calc = PNone)"
proof -
  have "get_multiplier_and_calculation_for_indicator w n
      = (rs, Inr ((case map_of unit ''Value'' of None \<Rightarrow> PNone | Some v \<Rightarrow> v), classify_calc name))"
    using assms
    by (simp add: get_multiplier_and_calculation_for_indicator_def bind_io_def pure_io_def
          multiplier_and_calculation_def)
  then show ?thesis
    by (simp add: classify_calc_def py_in_iff)
qed

lemma str_int_90366: "str_int 90366 = ''90366''"
  by (simp add: str_int_def str_nat.simps digit_char_def)

lemma url_90366:
  "base_url @ ''indicator_metadata/by_indicator_id?indicator_ids='' @ py_str w (PInt 90366)
   = base_url @ ''indicator_metadata/by_indicator_id?indicator_ids=90366''"
  by (simp add: str_int_90366)

lemma get_metadata_for_indicator_90366:
  "get_metadata_for_indicator
     (env_json (base_url @ ''indicator_metadata/by_indicator_id?indicator_ids=90366'')
        (indicator_metadata method)) (PInt 90366)
   = ([HttpGet True (base_url @ ''indicator_metadata/by_indicator_id?indicator_ids=90366'')],
      Inr (PDict [(''IID'', PInt 90366),
              (''Unit'', PDict [(''Id'', PInt 7), (''Value'', PInt 100000)]),
              (''ConfidenceIntervalMethod'', PDict [(''Id'', PInt 1), (''Name'', PStr method)])]))"
  apply (simp only: get_metadata_for_indicator_def url_90366 get_json_env_json)
  apply (simp only: py_str.simps str_int_90366)
  apply (simp add: bind_io_def pure_io_def indicator_metadata_def)
  done

text \<open>
  Indicator 90366 with the method name \<^verbatim>\<open>Byar's method\<close>.
\<close>

theorem multiplier_and_calculation_classified_witness:
  "get_multiplier_and_calculation_for_indicator
     (env_json (base_url @ ''indicator_metadata/by_indicator_id?indicator_ids=90366'')
        (indicator_metadata ''Byar's method'')) (PInt 90366)
   = ([HttpGet True (base_url @ ''indicator_metadata/by_indicator_id?indicator_ids=90366'')],
      Inr (PInt 100000, PStr ''Byar'')) \<and>
   occurs_in ''byar'' (str_lower ''Byar's method'') \<and>
   \<not> occurs_in ''wilson'' (str_lower ''Byar's method'')"
proof -
  let ?w = "env_json (base_url @ ''indicator_metadata/by_indicator_id?indicator_ids=90366'')
        (indicator_metadata ''Byar's method'')"
  have low: "str_lower ''Byar's method'' = ''byar's method''"
    by (simp add: str_lower_def lower_char_def)
  have b: "occurs_in ''byar'' (str_lower ''Byar's method'')"
    unfolding low py_in_iff [symmetric] by simp
  have nw: "\<not> occurs_in ''wilson'' (str_lower ''Byar's method'')"
    unfolding low py_in_iff [symmetric] by simp
  from multiplier_and_calculation_classified
    [OF get_metadata_for_indicator_90366 [of "''Byar's method''"], of "[(''Id'', PInt 7), (''Value'', PInt 100000)]"
       "[(''Id'', PInt 1), (''Name'', PStr ''Byar's method'')]" "''Byar's method''"]
  show ?thesis using b nw by auto
qed

text \<open>
  A method name that holds both words: \<^verbatim>\<open>Byar or Wilson\<close> holds \<^verbatim>\<open>byar\<close> and is classified
  \<^verbatim>\<open>Wilson\<close>, the word tested first.
\<close>

theorem byar_name_classified_wilson:
  "get_multiplier_and_calculation_for_indicator
     (env_json (base_url @ ''indicator_metadata/by_indicator_id?indicator_ids=90366'')
        (indicator_metadata ''Byar or Wilson'')) (PInt 90366)
   = ([HttpGet True (base_url @ ''indicator_metadata/by_indicator_id?indicator_ids=90366'')],
      Inr (PInt 100000, PStr ''Wilson'')) \<and>
   occurs_in ''byar'' (str_lower ''Byar or Wilson'')"
proof -
  have low: "str_lower ''Byar or Wilson'' = ''byar or wilson''"
    by (simp add: str_lower_def lower_char_def)
  have b: "occurs_in ''byar'' (str_lower ''Byar or Wilson'')"
    unfolding low py_in_iff [symmetric] by simp
  have r: "get_multiplier_and_calculation_for_indicator
     (env_json (base_url @ ''indicator_metadata/by_indicator_id?indicator_ids=90366'')
        (indicator_metadata ''Byar or Wilson'')) (PInt 90366)
   = ([HttpGet True (base_url @ ''indicator_metadata/by_indicator_id?indicator_ids=90366'')],
      Inr (PInt 100000, PStr ''Wilson''))"
    apply (simp only: get_multiplier_and_calculation_for_indicator_def get_metadata_for_indicator_90366)
    apply (simp add: bind_io_def pure_io_def multiplier_and_calculation_def classify_calc_def low)
    done
  from r b show ?thesis by simp
qed

subsection \<open>The metadata aggregate\<close>

lemma concat_io_ok:
  "a = (ra, Inr ta) \<Longrightarrow> b = (rb, Inr tb) \<Longrightarrow> concat_io a b = (ra @ rb, Inr (pd_concat ta tb))"
  by (simp add: concat_io_def bind_io_def pure_io_def)

lemma rows_pd_concat: "rows (pd_concat a b) = rows a @ rows b"
  by (simp add: pd_concat_def)

lemma nrows_pd_concat: "nrows (pd_concat a b) = nrows a + nrows b"
  by (simp add: nrows_def pd_concat_def)

text \<open>
  C4. With no argument the aggregate raises the \<^verbatim>\<open>NameError\<close> that asks for an ID and issues
  no request. With three truthy arguments whose three fetches succeed, it runs the profile
  fetch, then the domain fetch, then the indicator fetch, and returns the profile rows
  followed by the domain rows followed by the indicator rows: as many rows as the three
  tables have together.
\<close>

theorem get_metadata_none_and_all:
  assumes "truthy indicator_ids" and "truthy domain_ids" and "truthy profile_ids"
    and "get_metadata_for_profile_as_dataframe w profile_ids = (rp, Inr tp)"
    and "get_metadata_for_domain_as_dataframe w domain_ids = (rd, Inr td)"
    and "get_metadata_for_indicator_as_dataframe w indicator_ids = (ri, Inr ti)"
  shows "get_metadata w PNone PNone PNone
      = ([], Inl (NameError
           ''At least one of indicator_ids, domain_ids, or profile_ids must be provided.'')) \<and>
    get_metadata w indicator_ids domain_ids profile_ids
      = (rp @ rd @ ri, Inr (pd_concat (pd_concat tp td) ti)) \<and>
    rows (pd_concat (pd_concat tp td) ti) = rows tp @ rows td @ rows ti \<and>
    nrows (pd_concat (pd_concat tp td) ti) = nrows tp + nrows td + nrows ti"
proof -
  have 1: "get_metadata w PNone PNone PNone
      = ([], Inl (NameError
           ''At least one of indicator_ids, domain_ids, or profile_ids must be provided.''))"
    by (simp add: get_metadata_def)
  have pd: "concat_io (get_metadata_for_profile_as_dataframe w profile_ids)
              (get_metadata_for_domain_as_dataframe w domain_ids)
            = (rp @ rd, Inr (pd_concat tp td))"
    using assms(4,5) by (rule concat_io_ok)
  have 2: "get_metadata w indicator_ids domain_ids profile_ids
      = (rp @ rd @ ri, Inr (pd_concat (pd_concat tp td) ti))"
    using assms(1-3) concat_io_ok [OF pd assms(6)] by (simp add: get_metadata_def)
  show ?thesis using 1 2 by (simp add: rows_pd_concat nrows_pd_concat)
qed

text \<open>
  C10. A falsy argument counts as absent: replacing it by None changes nothing, and when
  all three are falsy the aggregate raises the \<^verbatim>\<open>NameError\<close> that asks for an ID, without a
  request. The ID 0, the empty list and the empty string are falsy.
\<close>

theorem get_metadata_truthiness:
  "\<not> truthy (PInt 0) \<and> \<not> truthy (PList []) \<and> \<not> truthy (PStr []) \<and>
   (\<not> truthy indicator_ids \<longrightarrow>
      get_metadata w indicator_ids domain_ids profile_ids = get_metadata w PNone domain_ids profile_ids) \<and>
   (\<not> truthy domain_ids \<longrightarrow>
      get_metadata w indicator_ids domain_ids profile_ids = get_metadata w indicator_ids PNone profile_ids) \<and>
   (\<not> truthy profile_ids \<longrightarrow>
      get_metadata w indicator_ids domain_ids profile_ids = get_metadata w indicator_ids domain_ids PNone) \<and>
   (\<not> truthy indicator_ids \<and> \<not> truthy domain_ids \<and> \<not> truthy profile_ids \<longrightarrow>
      get_metadata w indicator_ids domain_ids profile_ids
        = ([], Inl (NameError
             ''At least one of indicator_ids, domain_ids, or profile_ids must be provided.''))) \<and>
   (truthy domain_ids \<and> truthy profile_ids \<longrightarrow>
      get_metadata w PNone domain_ids profile_ids
        = concat_io (get_metadata_for_profile_as_dataframe w profile_ids)
            (get_metadata_for_domain_as_dataframe w domain_ids)) \<and>
   (truthy domain_ids \<longrightarrow>
      get_metadata w PNone domain_ids PNone = get_metadata_for_domain_as_dataframe w domain_ids)"
  by (simp add: get_metadata_def)

lemma str_int_19: "str_int 19 = ''19''"
  by (simp add: str_int_def str_nat.simps digit_char_def)

lemma str_int_1000049: "str_int 1000049 = ''1000049''"
  by (simp add: str_int_def str_nat.simps digit_char_def)

lemma read_csv_url_env_csv: "read_csv_url (env_csv strict relaxed) = strict"
  by (simp add: env_csv_def)

lemma deal_with_url_error_env_csv:
  "deal_with_url_error (env_csv strict relaxed) url = ([HttpGet False url], relaxed url)"
  by (simp add: deal_with_url_error_def env_csv_def)

lemma read_csv_url_services:
  "read_csv_url service_ok url = Inr (url_table url)"
  "read_csv_url service_regions url = Inr regions_table"
  "read_csv_url service_404 url = Inl (HTTPError 404)"
  "read_csv_url service_domain_2 url
     = (if url = domain_url @ ''2'' then Inl URLError else Inr (url_table url))"
  "read_csv_url service_999999 url
     = (if url = indicator_url @ ''999999'' then Inl (HTTPError 404) else Inl URLError)"
  by (simp_all add: service_ok_def service_regions_def service_404_def service_domain_2_def
        service_999999_def read_csv_url_env_csv)

lemma deal_with_url_error_services:
  "deal_with_url_error service_404 url = ([HttpGet False url], Inr (url_table url))"
  "deal_with_url_error service_domain_2 url = ([HttpGet False url], Inr (url_table url))"
  "deal_with_url_error service_999999 url = ([HttpGet False url], Inr (url_table url))"
  by (simp_all add: service_404_def service_domain_2_def service_999999_def
        deal_with_url_error_env_csv)

lemma indicator_fetch_ok:
  "get_metadata_for_indicator_as_dataframe service_ok (PInt 90366)
   = ([ReadCsv (indicator_url @ ''90366'')], Inr (url_table (indicator_url @ ''90366'')))"
  by (simp add: get_metadata_for_indicator_as_dataframe_def read_csv_except_http_url_def joined_ids_def
        read_csv_url_services str_int_90366)

lemma domain_fetch_ok:
  "get_metadata_for_domain_as_dataframe service_ok (PInt 1000049)
   = ([ReadCsv (domain_url @ ''1000049'')], Inr (url_table (domain_url @ ''1000049'')))"
  by (simp add: get_metadata_for_domain_as_dataframe_def metadata_by_id_def
        read_csv_except_http_url_def read_csv_url_services str_int_1000049)

lemma profile_fetch_ok:
  "get_metadata_for_profile_as_dataframe service_ok (PInt 19)
   = ([ReadCsv (profile_url @ ''19'')], Inr (url_table (profile_url @ ''19'')))"
  by (simp add: get_metadata_for_profile_as_dataframe_def metadata_by_id_def
        read_csv_except_http_url_def read_csv_url_services str_int_19)

text \<open>
  Profile 19, domain 1000049 and indicator 90366 together: three requests, three rows.
\<close>

theorem get_metadata_none_and_all_witness:
  "truthy (PInt 90366) \<and> truthy (PInt 1000049) \<and> truthy (PInt 19) \<and>
   get_metadata service_ok PNone PNone PNone
     = ([], Inl (NameError
          ''At least one of indicator_ids, domain_ids, or profile_ids must be provided.'')) \<and>
   get_metadata service_ok (PInt 90366) (PInt 1000049) (PInt 19)
     = ([ReadCsv (profile_url @ ''19''), ReadCsv (domain_url @ ''1000049''),
         ReadCsv (indicator_url @ ''90366'')],
        Inr \<lparr>columns = [''url''],
             rows = [(0, [(''url'', Txt (profile_url @ ''19''))]),
                     (0, [(''url'', Txt (domain_url @ ''1000049''))]),
                     (0, [(''url'', Txt (indicator_url @ ''90366''))])]\<rparr>)"
proof -
  have t: "truthy (PInt 90366)" "truthy (PInt 1000049)" "truthy (PInt 19)" by simp_all
  have c: "pd_concat (pd_concat (url_table (profile_url @ ''19'')) (url_table (domain_url @ ''1000049'')))
             (url_table (indicator_url @ ''90366''))
     = \<lparr>columns = [''url''],
        rows = [(0, [(''url'', Txt (profile_url @ ''19''))]),
                (0, [(''url'', Txt (domain_url @ ''1000049''))]),
                (0, [(''url'', Txt (indicator_url @ ''90366''))])]\<rparr>"
    by (simp add: pd_concat_def url_table_def one_row_def)
  from get_metadata_none_and_all [OF t profile_fetch_ok domain_fetch_ok indicator_fetch_ok]
  show ?thesis using t c by simp
qed

text \<open>
  The indicator ID 0 alone, three falsy arguments, and a domain ID between two falsy ones.
\<close>

theorem get_metadata_truthiness_witness:
  "\<not> truthy (PInt 0) \<and> \<not> truthy (PList []) \<and> \<not> truthy (PStr []) \<and> truthy (PInt 1000049) \<and>
   get_metadata service_ok (PInt 0) PNone PNone
     = ([], Inl (NameError
          ''At least one of indicator_ids, domain_ids, or profile_ids must be provided.'')) \<and>
   get_metadata service_ok (PInt 0) (PList []) (PStr [])
     = ([], Inl (NameError
          ''At least one of indicator_ids, domain_ids, or profile_ids must be provided.'')) \<and>
   get_metadata service_ok (PInt 0) (PInt 1000049) (PList [])
     = ([ReadCsv (domain_url @ ''1000049'')], Inr (url_table (domain_url @ ''1000049'')))"
proof -
  let ?w = service_ok
  have f: "\<not> truthy (PInt 0)" "\<not> truthy (PList [])" "\<not> truthy (PStr [])" "\<not> truthy PNone"
    and t: "truthy (PInt 1000049)" by simp_all
  note T1 = get_metadata_truthiness [of "PInt 0" ?w PNone PNone]
  note T2 = get_metadata_truthiness [of "PInt 0" ?w "PList []" "PStr []"]
  note T3 = get_metadata_truthiness [of "PInt 0" ?w "PInt 1000049" "PList []"]
  note T4 = get_metadata_truthiness [of PNone ?w "PInt 1000049" "PList []"]
  note T5 = get_metadata_truthiness [of PNone ?w "PInt 1000049" PNone]
  have 1: "get_metadata ?w (PInt 0) PNone PNone
     = ([], Inl (NameError
          ''At least one of indicator_ids, domain_ids, or profile_ids must be provided.''))"
    using T1 f by blast
  have 2: "get_metadata ?w (PInt 0) (PList []) (PStr [])
     = ([], Inl (NameError
          ''At least one of indicator_ids, domain_ids, or profile_ids must be provided.''))"
    using T2 f by blast
  have "get_metadata ?w (PInt 0) (PInt 1000049) (PList []) = get_metadata ?w PNone (PInt 1000049) (PList [])"
    using T3 f by blast
  also have "\<dots> = get_metadata ?w PNone (PInt 1000049) PNone"
    using T4 f by blast
  also have "\<dots> = get_metadata_for_domain_as_dataframe ?w (PInt 1000049)"
    using T5 t by blast
  finally have 3: "get_metadata ?w (PInt 0) (PInt 1000049) (PList [])
     = ([ReadCsv (domain_url @ ''1000049'')], Inr (url_table (domain_url @ ''1000049'')))"
    by (simp only: domain_fetch_ok)
  from f t 1 2 3 show ?thesis by blast
qed

subsection \<open>CSV metadata fetches\<close>

lemma deal_with_url_error_requests: "fst (deal_with_url_error w url) = [HttpGet False url]"
  by (simp add: deal_with_url_error_def split: sum.splits)

lemma read_csv_except_http_url_http:
  "read_csv_url w url = Inl (HTTPError c) \<Longrightarrow>
   read_csv_except_http_url w url raised = ([ReadCsv url], Inl raised)"
  by (simp add: read_csv_except_http_url_def)

lemma read_csv_except_http_url_url:
  "read_csv_url w url = Inl URLError \<Longrightarrow>
   read_csv_except_http_url w url raised
     = ([ReadCsv url, HttpGet False url], snd (deal_with_url_error w url))"
  using deal_with_url_error_requests [of w url]
  by (cases "deal_with_url_error w url") (simp add: read_csv_except_http_url_def)

text \<open>
  Where the \<^verbatim>\<open>HTTPError\<close> handler comes first, in the metadata fetch by indicator ID or IDs
  and in the fetch by one domain ID or one profile ID (for a list of them, see the batch
  loop below): an HTTP error of \<^verbatim>\<open>pd.read_csv\<close> raises the \<^verbatim>\<open>NameError\<close> that
  names the ID, after the one request, with no request without verification; a URL error
  that is not an HTTP error is followed by exactly one request without verification, and
  the fetch returns what that request gives, its table when it succeeds.
\<close>

lemma metadata_fetch_http_error_or_url_error:
  assumes "\<not> is_list group_id" and "\<not> is_list profile_id"
  shows "(read_csv_url w (indicator_url @ joined_ids w indicator_ids) = Inl (HTTPError c) \<longrightarrow>
       get_metadata_for_indicator_as_dataframe w indicator_ids
         = ([ReadCsv (indicator_url @ joined_ids w indicator_ids)],
            Inl (NameError (''Indicator '' @ joined_ids w indicator_ids @ '' does not exist'')))) \<and>
    (read_csv_url w (indicator_url @ joined_ids w indicator_ids) = Inl URLError \<longrightarrow>
       get_metadata_for_indicator_as_dataframe w indicator_ids
         = ([ReadCsv (indicator_url @ joined_ids w indicator_ids),
             HttpGet False (indicator_url @ joined_ids w indicator_ids)],
            snd (deal_with_url_error w (indicator_url @ joined_ids w indicator_ids)))) \<and>
    (read_csv_url w (domain_url @ py_str w group_id) = Inl (HTTPError c) \<longrightarrow>
       get_metadata_for_domain_as_dataframe w group_id
         = ([ReadCsv (domain_url @ py_str w group_id)],
            Inl (NameError (''Domain '' @ py_str w group_id @ '' does not exist'')))) \<and>
    (read_csv_url w (domain_url @ py_str w group_id) = Inl URLError \<longrightarrow>
       get_metadata_for_domain_as_dataframe w group_id
         = ([ReadCsv (domain_url @ py_str w group_id), HttpGet False (domain_url @ py_str w group_id)],
            snd (deal_with_url_error w (domain_url @ py_str w group_id)))) \<and>
    (read_csv_url w (profile_url @ py_str w profile_id) = Inl (HTTPError c) \<longrightarrow>
       get_metadata_for_profile_as_dataframe w profile_id
         = ([ReadCsv (profile_url @ py_str w profile_id)],
            Inl (NameError (''Profile '' @ py_str w profile_id @ '' does not exist'')))) \<and>
    (read_csv_url w (profile_url @ py_str w profile_id) = Inl URLError \<longrightarrow>
       get_metadata_for_profile_as_dataframe w profile_id
         = ([ReadCsv (profile_url @ py_str w profile_id), HttpGet False (profile_url @ py_str w profile_id)],
            snd (deal_with_url_error w (profile_url @ py_str w profile_id))))"
proof -
  have d: "metadata_by_id w p e group_id
      = read_csv_except_http_url w (p @ py_str w group_id)
          (NameError (e @ '' '' @ py_str w group_id @ '' does not exist''))" for p e
    using assms(1) by (cases group_id) (simp_all add: metadata_by_id_def)
  have p: "metadata_by_id w q e profile_id
      = read_csv_except_http_url w (q @ py_str w profile_id)
          (NameError (e @ '' '' @ py_str w profile_id @ '' does not exist''))" for q e
    using assms(2) by (cases profile_id) (simp_all add: metadata_by_id_def)
  show ?thesis
    unfolding get_metadata_for_indicator_as_dataframe_def get_metadata_for_domain_as_dataframe_def
      get_metadata_for_profile_as_dataframe_def d p
    by (simp add: read_csv_except_http_url_http read_csv_except_http_url_url)
qed

lemma str_int_999999: "str_int 999999 = ''999999''"
  by (simp add: str_int_def str_nat.simps digit_char_def)

text \<open>
  Indicator 999999 meets HTTP 404; domain 1000049 meets a URL error and is fetched again
  without verification.
\<close>

lemma metadata_fetch_at_999999:
  "\<not> is_list (PInt 1000049) \<and> \<not> is_list (PInt 19) \<and>
   get_metadata_for_indicator_as_dataframe service_999999 (PInt 999999)
     = ([ReadCsv (indicator_url @ ''999999'')], Inl (NameError ''Indicator 999999 does not exist'')) \<and>
   get_metadata_for_domain_as_dataframe service_999999 (PInt 1000049)
     = ([ReadCsv (domain_url @ ''1000049''), HttpGet False (domain_url @ ''1000049'')],
        Inr (url_table (domain_url @ ''1000049'')))"
proof -
  let ?w = service_999999
  have n: "\<not> is_list (PInt 1000049)" "\<not> is_list (PInt 19)" by simp_all
  have j: "joined_ids ?w (PInt 999999) = ''999999''"
    by (simp add: joined_ids_def str_int_999999)
  have h: "read_csv_url ?w (indicator_url @ joined_ids ?w (PInt 999999)) = Inl (HTTPError 404)"
    by (simp add: j read_csv_url_services)
  have u: "read_csv_url ?w (domain_url @ py_str ?w (PInt 1000049)) = Inl URLError"
    by (simp add: read_csv_url_services str_int_1000049 domain_url_def indicator_url_def)
  note T = metadata_fetch_http_error_or_url_error [OF n, of ?w "PInt 999999" 404]
  have 1: "get_metadata_for_indicator_as_dataframe ?w (PInt 999999)
     = ([ReadCsv (indicator_url @ ''999999'')], Inl (NameError ''Indicator 999999 does not exist''))"
    using T h j by simp
  have 2: "get_metadata_for_domain_as_dataframe ?w (PInt 1000049)
     = ([ReadCsv (domain_url @ ''1000049''), HttpGet False (domain_url @ ''1000049'')],
        Inr (url_table (domain_url @ ''1000049'')))"
    using T u by (simp add: deal_with_url_error_services str_int_1000049)
  from n 1 2 show ?thesis by blast
qed

text \<open>
  C2, at HTTP 404 where the \<^verbatim>\<open>URLError\<close> handler stands alone. \<^verbatim>\<open>HTTPError\<close> is a \<^verbatim>\<open>URLError\<close>, so
  the CSV fetch of all indicator metadata, and the data fetch by indicator ID, go on to the
  request without verification and return its table; no error that tells of a missing
  entity is raised.
\<close>

theorem http_error_enters_retry:
  "get_metadata_for_all_indicators_from_csv service_404
     = ([ReadCsv (base_url @ ''indicator_metadata/csv/all''),
         HttpGet False (base_url @ ''indicator_metadata/csv/all'')],
        Inr (url_table (base_url @ ''indicator_metadata/csv/all''))) \<and>
   get_data_by_indicator_ids service_404 (PInt 999999) (PInt 6) (PInt 15) PNone PNone
     = ([ReadCsv (base_url @ ''all_data/csv/by_indicator_id?indicator_ids=999999''
                  @ ''&child_area_type_id=6&parent_area_type_id=15''),
         HttpGet False (base_url @ ''all_data/csv/by_indicator_id?indicator_ids=999999''
                  @ ''&child_area_type_id=6&parent_area_type_id=15'')],
        Inr (url_table (base_url @ ''all_data/csv/by_indicator_id?indicator_ids=999999''
                  @ ''&child_area_type_id=6&parent_area_type_id=15'')))"
proof -
  have s6: "str_int 6 = ''6''" and s15: "str_int 15 = ''15''"
    by (simp_all add: str_int_def str_nat.simps digit_char_def)
  have r: "read_csv_except_url service_404 url
     = ([ReadCsv url, HttpGet False url], Inr (url_table url))" for url
    by (simp add: read_csv_except_url_def read_csv_url_services deal_with_url_error_services)
  show ?thesis
    by (simp add: get_metadata_for_all_indicators_from_csv_def get_data_by_indicator_ids_def r
          join_ids_def str_int_999999 s6 s15)
qed

subsection \<open>Batches of domain or profile IDs\<close>

lemma fetched_rows_ok: "read_csv_url w url = Inr t \<Longrightarrow> fetched_rows w url = rows t"
  by (simp add: fetched_rows_def fetched_table_def)

text \<open>
  When \<^verbatim>\<open>pd.read_csv\<close> succeeds for every ID, the loop issues one request per ID, in the
  order of the list, and appends the rows of every table.
\<close>

lemma metadata_loop_all_ok:
  "list_all (\<lambda>x. csv_ok (read_csv_url w (p @ py_str w x))) xs \<Longrightarrow>
   \<exists>t. metadata_loop w p e xs df = (map (\<lambda>x. ReadCsv (p @ py_str w x)) xs, Inr t) \<and>
       rows t = rows df @ concat (map (\<lambda>x. fetched_rows w (p @ py_str w x)) xs)"
proof (induction xs arbitrary: df)
  case Nil
  then show ?case by simp
next
  case (Cons x xs)
  from Cons.prems obtain t0 where t0: "read_csv_url w (p @ py_str w x) = Inr t0"
    by (cases "read_csv_url w (p @ py_str w x)") auto
  from Cons.prems have rest: "list_all (\<lambda>x. csv_ok (read_csv_url w (p @ py_str w x))) xs"
    by simp
  from Cons.IH [OF rest, of "pd_concat df t0"] obtain t where
    t: "metadata_loop w p e xs (pd_concat df t0) = (map (\<lambda>x. ReadCsv (p @ py_str w x)) xs, Inr t)"
    and r: "rows t = rows (pd_concat df t0) @ concat (map (\<lambda>x. fetched_rows w (p @ py_str w x)) xs)"
    by blast
  show ?case
    using t0 t r by (simp add: fetched_rows_ok pd_concat_def)
qed

text \<open>
  An HTTP error at an ID, after IDs for which \<^verbatim>\<open>pd.read_csv\<close> succeeded, raises the
  \<^verbatim>\<open>NameError\<close> that names this ID; no request is issued for the IDs behind it and no table
  is returned.
\<close>

lemma metadata_loop_http_error:
  "list_all (\<lambda>x. csv_ok (read_csv_url w (p @ py_str w x))) xs \<Longrightarrow>
   read_csv_url w (p @ py_str w x) = Inl (HTTPError c) \<Longrightarrow>
   metadata_loop w p e (xs @ x # ys) df
     = (map (\<lambda>x. ReadCsv (p @ py_str w x)) (xs @ [x]),
        Inl (NameError (e @ '' '' @ py_str w x @ '' does not exist'')))"
proof (induction xs arbitrary: df)
  case Nil
  then show ?case by simp
next
  case (Cons a xs)
  from Cons.prems obtain t0 where t0: "read_csv_url w (p @ py_str w a) = Inr t0"
    by (cases "read_csv_url w (p @ py_str w a)") auto
  from Cons.prems have rest: "list_all (\<lambda>x. csv_ok (read_csv_url w (p @ py_str w x))) xs"
    by simp
  show ?case
    using t0 Cons.IH [OF rest Cons.prems(2), of "pd_concat df t0"] by simp
qed

lemma str_int_1: "str_int 1 = ''1''"
  by (simp add: str_int_def str_nat.simps digit_char_def)

lemma str_int_2: "str_int 2 = ''2''"
  by (simp add: str_int_def str_nat.simps digit_char_def)

text \<open>
  C1, at a batch of two domain IDs in which \<^verbatim>\<open>pd.read_csv\<close> succeeds for the first and meets
  a URL error for the second, whose request without verification succeeds. Each of the two
  IDs contributes a table of one row; the table returned is the second one alone, of one
  row: the \<^verbatim>\<open>URLError\<close> handler assigns the retried table to \<^verbatim>\<open>df\<close> in place of appending it.
\<close>

theorem domain_batch_drops_rows_after_url_error:
  "get_metadata_for_domain_as_dataframe service_domain_2 (PList [PInt 1, PInt 2])
     = ([ReadCsv (domain_url @ ''1''), ReadCsv (domain_url @ ''2''), HttpGet False (domain_url @ ''2'')],
        Inr (url_table (domain_url @ ''2''))) \<and>
   length (fetched_rows service_domain_2 (domain_url @ ''1'')) = 1 \<and>
   length (fetched_rows service_domain_2 (domain_url @ ''2'')) = 1 \<and>
   nrows (url_table (domain_url @ ''2'')) = 1"
  by (simp add: get_metadata_for_domain_as_dataframe_def metadata_by_id_def str_int_1 str_int_2
        read_csv_url_services deal_with_url_error_services fetched_rows_def fetched_table_def
        nrows_def url_table_def one_row_def)

subsection \<open>All data for a profile\<close>

lemma bind_io_assoc: "bind_io (bind_io m f) g = bind_io m (\<lambda>x. bind_io (f x) g)"
proof (cases m)
  case (Pair rs r)
  show ?thesis
  proof (cases r)
    case (Inl e)
    with Pair show ?thesis by (simp add: bind_io_def)
  next
    case (Inr x)
    obtain rs' r' where f: "f x = (rs', r')" by (cases "f x")
    show ?thesis
    proof (cases r')
      case (Inl e)
      with Pair Inr f show ?thesis by (simp add: bind_io_def)
    next
      case (Inr y)
      obtain rs'' r'' where g: "g y = (rs'', r'')" by (cases "g y")
      with Pair \<open>r = Inr x\<close> f Inr show ?thesis by (simp add: bind_io_def)
    qed
  qed
qed

lemma bind_io_pure_Inr:
  "bind_io m (\<lambda>x. pure_io (h x)) = (rs, Inr y) \<Longrightarrow> \<exists>x. m = (rs, Inr x) \<and> h x = Inr y"
  by (cases m) (auto simp: bind_io_def pure_io_def split: sum.splits)

lemma bind_io_pure_id: "m = (rs, Inr x) \<Longrightarrow> bind_io m (\<lambda>x. pure_io (Inr x)) = (rs, Inr x)"
  by (simp add: bind_io_def pure_io_def)

lemma get_all_data_for_profile_split:
  "get_all_data_for_profile w profile_id parent area_type_id f =
     bind_io (merged_profile_data w profile_id parent area_type_id)
       (\<lambda>df. pure_io (filter_area_codes f df))"
  by (simp add: get_all_data_for_profile_def merged_profile_data_def bind_io_assoc)

lemma fetched_rows_retry:
  "read_csv_url w url = Inl e \<Longrightarrow> isinstance_URLError e \<Longrightarrow> \<not> isinstance_HTTPError e \<Longrightarrow>
   deal_with_url_error w url = (rs, Inr t) \<Longrightarrow> fetched_rows w url = rows t"
  by (simp add: fetched_rows_def fetched_table_def)

text \<open>
  A run of the loop that returns has issued \<^verbatim>\<open>pd.read_csv\<close> once for every area type, in
  order, and returns the rows it started with followed by the rows fetched for every area
  type, those of a retry without verification included.
\<close>

lemma profile_data_loop_returns:
  "profile_data_loop w pid par areas df = (rs, Inr t) \<Longrightarrow>
   filter is_ReadCsv rs = map (\<lambda>a. ReadCsv (profile_data_url w pid par a)) areas \<and>
   rows t = rows df @ concat (map (\<lambda>a. fetched_rows w (profile_data_url w pid par a)) areas)"
proof (induction areas arbitrary: df rs t)
  case Nil
  then show ?case by simp
next
  case (Cons a areas)
  let ?u = "profile_data_url w pid par a"
  show ?case
  proof (cases "read_csv_url w ?u")
    case (Inr t0)
    obtain rs' r' where l: "profile_data_loop w pid par areas (pd_concat df t0) = (rs', r')"
      by (cases "profile_data_loop w pid par areas (pd_concat df t0)")
    with Cons.prems Inr have rs: "rs = ReadCsv ?u # rs'" and r': "r' = Inr t" by simp_all
    from Cons.IH [OF l [unfolded r']] show ?thesis
      using rs Inr by (simp add: fetched_rows_ok pd_concat_def)
  next
    case (Inl e)
    from Cons.prems Inl have nh: "\<not> isinstance_HTTPError e"
      by (auto split: if_splits)
    from Cons.prems Inl nh have iu: "isinstance_URLError e"
      by (auto split: if_splits)
    obtain rs1 r1 where d: "deal_with_url_error w ?u = (rs1, r1)"
      by (cases "deal_with_url_error w ?u")
    from Cons.prems Inl nh iu d obtain t1 where r1: "r1 = Inr t1"
      by (cases r1) auto
    have rs1: "rs1 = [HttpGet False ?u]"
      using deal_with_url_error_requests [of w ?u] d by simp
    obtain rs' r' where l: "profile_data_loop w pid par areas (pd_concat df t1) = (rs', r')"
      by (cases "profile_data_loop w pid par areas (pd_concat df t1)")
    with Cons.prems Inl nh iu d r1 have rs: "rs = ReadCsv ?u # rs1 @ rs'" and r': "r' = Inr t"
      by simp_all
    have fr: "fetched_rows w ?u = rows t1"
      using fetched_rows_retry [OF Inl iu nh d [unfolded r1]] .
    from Cons.IH [OF l [unfolded r']] show ?thesis
      using rs rs1 fr by (simp add: pd_concat_def)
  qed
qed

lemma cell_at_Cons: "name \<noteq> c \<Longrightarrow> cell_at ((name, v) # r) c = cell_at r c"
  by (simp add: cell_at_def)

lemma reset_index_rows:
  "reset_index m = Inr df \<Longrightarrow>
   index_is_reset df \<and> nrows df = nrows m \<and>
   (\<forall>ir \<in> set (rows df). \<exists>jr \<in> set (rows m).
      cell_at (snd ir) ''Area Code'' = cell_at (snd jr) ''Area Code'')"
proof -
  assume a: "reset_index m = Inr df"
  define name where "name = (if ''index'' \<in> set (columns m) then ''level_0'' else ''index'')"
  have ne: "name \<noteq> ''Area Code''" by (simp add: name_def)
  from a have rows: "rows df = map (\<lambda>nir. (int (fst nir), (name, Num (fst (snd nir))) # snd (snd nir)))
                            (enumerate 0 (rows m))"
    by (auto simp: reset_index_def Let_def name_def split: if_splits)
  have "map fst (rows df) = map int (map fst (enumerate 0 (rows m)))"
    unfolding rows by (simp only: map_map comp_def fst_conv)
  then have 1: "index_is_reset df"
    unfolding index_is_reset_def by (simp add: rows)
  have 2: "nrows df = nrows m"
    by (simp add: nrows_def rows)
  have 3: "\<forall>ir \<in> set (rows df). \<exists>jr \<in> set (rows m).
      cell_at (snd ir) ''Area Code'' = cell_at (snd jr) ''Area Code''"
  proof
    fix ir assume "ir \<in> set (rows df)"
    then obtain nir where nir: "nir \<in> set (enumerate 0 (rows m))"
      and ir: "ir = (int (fst nir), (name, Num (fst (snd nir))) # snd (snd nir))"
      unfolding rows by auto
    from nir have lt: "fst nir < length (rows m)" and eq: "rows m ! fst nir = snd nir"
      by (simp_all add: in_set_enumerate_eq)
    from nth_mem [OF lt] eq have "snd nir \<in> set (rows m)"
      by simp
    moreover have "cell_at (snd ir) ''Area Code'' = cell_at (snd (snd nir)) ''Area Code''"
      using ir ne by (simp add: cell_at_Cons)
    ultimately show "\<exists>jr \<in> set (rows m). cell_at (snd ir) ''Area Code'' = cell_at (snd jr) ''Area Code''"
      by blast
  qed
  from 1 2 3 show ?thesis by blast
qed

lemma isin_match_str: "isin_match c (PStr t) \<longleftrightarrow> c = Txt t"
  by (cases c) auto

lemma str_codes_list_or_str: "str_codes f \<Longrightarrow> list_or_str f"
  by (cases f) auto

lemma filter_area_codes_ok:
  assumes "list_or_str f" and "truthy f" and "filter_area_codes f m = Inr df"
  shows "only_area_codes (given_codes f) df \<and> index_is_reset df \<and>
    nrows df = length (filter (\<lambda>ir. list_ex (isin_match (cell_at (snd ir) ''Area Code'')) (given_codes f))
                         (rows m))"
proof -
  let ?P = "\<lambda>ir. list_ex (isin_match (cell_at (snd ir) ''Area Code'')) (given_codes f)"
  have "\<exists>m'. rows m' = filter ?P (rows m) \<and> reset_index m' = Inr df"
  proof (cases f)
    case (PList codes)
    with assms have "reset_index (m\<lparr>rows := filter ?P (rows m)\<rparr>) = Inr df"
      by (auto simp: filter_area_codes_def loc_isin_def split: if_splits sum.splits)
    then show ?thesis
      by (intro exI [of _ "m\<lparr>rows := filter ?P (rows m)\<rparr>"]) simp
  next
    case (PStr code)
    with assms have "reset_index (m\<lparr>rows := filter ?P (rows m)\<rparr>) = Inr df"
      by (auto simp: filter_area_codes_def loc_eq_def isin_match_str split: if_splits sum.splits)
    then show ?thesis
      by (intro exI [of _ "m\<lparr>rows := filter ?P (rows m)\<rparr>"]) simp
  qed (use assms in simp_all)
  then obtain m' where m': "rows m' = filter ?P (rows m)" and r: "reset_index m' = Inr df"
    by blast
  from reset_index_rows [OF r] have i: "index_is_reset df" and n: "nrows df = nrows m'"
    and c: "\<forall>ir \<in> set (rows df). \<exists>jr \<in> set (rows m').
      cell_at (snd ir) ''Area Code'' = cell_at (snd jr) ''Area Code''"
    by blast+
  have "only_area_codes (given_codes f) df"
    unfolding only_area_codes_def list_all_iff
  proof
    fix ir assume "ir \<in> set (rows df)"
    with c obtain jr where "jr \<in> set (rows m')"
      and e: "cell_at (snd ir) ''Area Code'' = cell_at (snd jr) ''Area Code''" by blast
    then have "?P jr" using m' by simp
    then show "?P ir" using e by simp
  qed
  then show ?thesis using i n m' by (simp add: nrows_def)
qed

lemma merged_profile_data_unfiltered:
  "get_all_data_for_profile w pid par at PNone = merged_profile_data w pid par at"
proof (cases "merged_profile_data w pid par at")
  case (Pair rs r)
  then show ?thesis
    by (cases r)
       (simp_all add: get_all_data_for_profile_split bind_io_def pure_io_def filter_area_codes_def)
qed

lemma falsy_filter_unfiltered:
  "\<not> truthy f \<Longrightarrow> get_all_data_for_profile w pid par at f = merged_profile_data w pid par at"
proof (cases "merged_profile_data w pid par at")
  case (Pair rs r)
  assume "\<not> truthy f"
  with Pair show ?thesis
    by (cases r)
       (simp_all add: get_all_data_for_profile_split bind_io_def pure_io_def filter_area_codes_def)
qed

text \<open>
  C8, as amended. With a truthy filter that is a string or a list of strings, so a
  non-empty code or a non-empty list of codes, a call that returns gives a table in which
  every row has one of the given codes in its \<^verbatim>\<open>Area Code\<close> column and whose index is 0, 1, 2
  and so on; it has as many rows as the unfiltered result of the same call has rows with
  one of the codes, whatever the number of area types fetched. With a falsy filter, the
  empty list and the empty string among them, the call does what it does with no filter:
  it returns the merged table as it stands after the loop.
\<close>

theorem filter_by_area_codes_rows_and_index:
  "(str_codes f \<and> truthy f \<and> get_all_data_for_profile w pid par at f = (rs, Inr df) \<longrightarrow>
      only_area_codes (given_codes f) df \<and> index_is_reset df \<and>
      (\<exists>merged. get_all_data_for_profile w pid par at PNone = (rs, Inr merged) \<and>
         nrows df = length (filter
           (\<lambda>ir. list_ex (isin_match (cell_at (snd ir) ''Area Code'')) (given_codes f))
           (rows merged)))) \<and>
   (\<not> truthy f \<longrightarrow>
      get_all_data_for_profile w pid par at f = get_all_data_for_profile w pid par at PNone \<and>
      get_all_data_for_profile w pid par at f = merged_profile_data w pid par at)"
proof (intro conjI impI)
  assume a: "str_codes f \<and> truthy f \<and> get_all_data_for_profile w pid par at f = (rs, Inr df)"
  then have los: "list_or_str f" and t: "truthy f"
    and r: "get_all_data_for_profile w pid par at f = (rs, Inr df)"
    by (simp_all add: str_codes_list_or_str)
  from r obtain merged where m: "merged_profile_data w pid par at = (rs, Inr merged)"
    and fl: "filter_area_codes f merged = Inr df"
    using bind_io_pure_Inr [of "merged_profile_data w pid par at" "filter_area_codes f" rs df]
    by (auto simp: get_all_data_for_profile_split)
  note ok = filter_area_codes_ok [OF los t fl]
  from ok show "only_area_codes (given_codes f) df" by simp
  from ok show "index_is_reset df" by simp
  from ok m show "\<exists>merged. get_all_data_for_profile w pid par at PNone = (rs, Inr merged) \<and>
         nrows df = length (filter
           (\<lambda>ir. list_ex (isin_match (cell_at (snd ir) ''Area Code'')) (given_codes f))
           (rows merged))"
    by (simp add: merged_profile_data_unfiltered)
next
  assume "\<not> truthy f"
  then show "get_all_data_for_profile w pid par at f = get_all_data_for_profile w pid par at PNone"
    by (simp add: falsy_filter_unfiltered merged_profile_data_unfiltered)
next
  assume "\<not> truthy f"
  then show "get_all_data_for_profile w pid par at f = merged_profile_data w pid par at"
    by (rule falsy_filter_unfiltered)
qed

lemma str_int_6: "str_int 6 = ''6''"
  by (simp add: str_int_def str_nat.simps digit_char_def)

lemma str_int_7: "str_int 7 = ''7''"
  by (simp add: str_int_def str_nat.simps digit_char_def)

lemma str_int_15: "str_int 15 = ''15''"
  by (simp add: str_int_def str_nat.simps digit_char_def)

lemma str_int_102: "str_int 102 = ''102''"
  by (simp add: str_int_def str_nat.simps digit_char_def)

lemma two_regions_fetches:
  "merged_profile_data service_regions (PInt 19) (PInt 15)
     (PList [PInt 6, PInt 7])
   = ([ReadCsv (base_url @ ''all_data/csv/by_profile_id?child_area_type_id=6''
                  @ ''&parent_area_type_id=15&profile_id=19''),
       ReadCsv (base_url @ ''all_data/csv/by_profile_id?child_area_type_id=7''
                  @ ''&parent_area_type_id=15&profile_id=19'')],
      Inr \<lparr>columns = [''Area Code''],
           rows = [(0, [(''Area Code'', Txt ''E12000001'')]),
                   (1, [(''Area Code'', Txt ''E12000002'')]),
                   (0, [(''Area Code'', Txt ''E12000001'')]),
                   (1, [(''Area Code'', Txt ''E12000002'')])]\<rparr>)"
  by (simp add: merged_profile_data_def resolve_area_types_def bind_io_def pure_io_def
        read_csv_url_services profile_data_url_def str_int_6 str_int_7 str_int_15 str_int_19
        pd_concat_def empty_df_def regions_table_def)

text \<open>
  Two area types of two regions each, filtered to \<^verbatim>\<open>E12000001\<close>: two rows, indexed 0 and 1.
  With the empty string and with the empty list as filter: the four rows as merged.
\<close>

theorem filter_by_area_codes_rows_and_index_witness:
  "str_codes (PList [PStr ''E12000001'']) \<and> truthy (PList [PStr ''E12000001'']) \<and>
   get_all_data_for_profile service_regions (PInt 19) (PInt 15)
     (PList [PInt 6, PInt 7]) (PList [PStr ''E12000001''])
   = ([ReadCsv (base_url @ ''all_data/csv/by_profile_id?child_area_type_id=6''
                  @ ''&parent_area_type_id=15&profile_id=19''),
       ReadCsv (base_url @ ''all_data/csv/by_profile_id?child_area_type_id=7''
                  @ ''&parent_area_type_id=15&profile_id=19'')],
      Inr \<lparr>columns = [''index'', ''Area Code''],
           rows = [(0, [(''index'', Num 0), (''Area Code'', Txt ''E12000001'')]),
                   (1, [(''index'', Num 0), (''Area Code'', Txt ''E12000001'')])]\<rparr>) \<and>
   only_area_codes [PStr ''E12000001'']
     \<lparr>columns = [''index'', ''Area Code''],
      rows = [(0, [(''index'', Num 0), (''Area Code'', Txt ''E12000001'')]),
              (1, [(''index'', Num 0), (''Area Code'', Txt ''E12000001'')])]\<rparr> \<and>
   index_is_reset
     \<lparr>columns = [''index'', ''Area Code''],
      rows = [(0, [(''index'', Num 0), (''Area Code'', Txt ''E12000001'')]),
              (1, [(''index'', Num 0), (''Area Code'', Txt ''E12000001'')])]\<rparr> \<and>
   \<not> truthy (PStr []) \<and> \<not> truthy (PList []) \<and>
   get_all_data_for_profile service_regions (PInt 19) (PInt 15) (PList [PInt 6, PInt 7]) (PStr [])
   = ([ReadCsv (base_url @ ''all_data/csv/by_profile_id?child_area_type_id=6''
                  @ ''&parent_area_type_id=15&profile_id=19''),
       ReadCsv (base_url @ ''all_data/csv/by_profile_id?child_area_type_id=7''
                  @ ''&parent_area_type_id=15&profile_id=19'')],
      Inr \<lparr>columns = [''Area Code''],
           rows = [(0, [(''Area Code'', Txt ''E12000001'')]),
                   (1, [(''Area Code'', Txt ''E12000002'')]),
                   (0, [(''Area Code'', Txt ''E12000001'')]),
                   (1, [(''Area Code'', Txt ''E12000002'')])]\<rparr>) \<and>
   get_all_data_for_profile service_regions (PInt 19) (PInt 15) (PList [PInt 6, PInt 7]) (PList [])
   = get_all_data_for_profile service_regions (PInt 19) (PInt 15) (PList [PInt 6, PInt 7]) (PStr [])"
proof -
  let ?w = service_regions
  let ?f = "PList [PStr ''E12000001'']"
  let ?at = "PList [PInt 6, PInt 7]"
  have h: "str_codes ?f" "truthy ?f" by simp_all
  have e: "\<not> truthy (PStr [])" "\<not> truthy (PList [])" by simp_all
  have r: "get_all_data_for_profile ?w (PInt 19) (PInt 15) ?at ?f
   = ([ReadCsv (base_url @ ''all_data/csv/by_profile_id?child_area_type_id=6''
                  @ ''&parent_area_type_id=15&profile_id=19''),
       ReadCsv (base_url @ ''all_data/csv/by_profile_id?child_area_type_id=7''
                  @ ''&parent_area_type_id=15&profile_id=19'')],
      Inr \<lparr>columns = [''index'', ''Area Code''],
           rows = [(0, [(''index'', Num 0), (''Area Code'', Txt ''E12000001'')]),
                   (1, [(''index'', Num 0), (''Area Code'', Txt ''E12000001'')])]\<rparr>)"
    apply (simp only: get_all_data_for_profile_split two_regions_fetches)
    apply (simp add: bind_io_def pure_io_def filter_area_codes_def loc_isin_def reset_index_def
             cell_at_def enumerate_eq_zip upt_rec Let_def)
    done
  note T = filter_by_area_codes_rows_and_index
    [of ?f ?w "PInt 19" "PInt 15" ?at _ _, THEN conjunct1, rule_format, OF conjI [OF h(1) conjI [OF h(2) r]]]
  note S = filter_by_area_codes_rows_and_index
    [of "PStr []" ?w "PInt 19" "PInt 15" ?at, THEN conjunct2, rule_format, OF e(1)]
  note L = filter_by_area_codes_rows_and_index
    [of "PList []" ?w "PInt 19" "PInt 15" ?at, THEN conjunct2, rule_format, OF e(2)]
  have s: "get_all_data_for_profile ?w (PInt 19) (PInt 15) ?at (PStr [])
     = merged_profile_data ?w (PInt 19) (PInt 15) ?at"
    by (rule S [THEN conjunct2])
  have l: "get_all_data_for_profile ?w (PInt 19) (PInt 15) ?at (PList [])
     = get_all_data_for_profile ?w (PInt 19) (PInt 15) ?at (PStr [])"
    using S [THEN conjunct1] L [THEN conjunct1] by simp
  from T h e r s l show ?thesis
    by (simp add: two_regions_fetches)
qed

text \<open>
  The empty list as filter, over two area types: the four rows of the two fetches come
  back, none of them with a code of the (empty) list, under the index 0, 1, 0, 1.
\<close>

theorem empty_filter_list_returns_every_row:
  "get_all_data_for_profile service_regions (PInt 19) (PInt 15)
     (PList [PInt 6, PInt 7]) (PList [])
   = ([ReadCsv (base_url @ ''all_data/csv/by_profile_id?child_area_type_id=6''
                  @ ''&parent_area_type_id=15&profile_id=19''),
       ReadCsv (base_url @ ''all_data/csv/by_profile_id?child_area_type_id=7''
                  @ ''&parent_area_type_id=15&profile_id=19'')],
      Inr \<lparr>columns = [''Area Code''],
           rows = [(0, [(''Area Code'', Txt ''E12000001'')]),
                   (1, [(''Area Code'', Txt ''E12000002'')]),
                   (0, [(''Area Code'', Txt ''E12000001'')]),
                   (1, [(''Area Code'', Txt ''E12000002'')])]\<rparr>) \<and>
   \<not> only_area_codes []
     \<lparr>columns = [''Area Code''],
      rows = [(0, [(''Area Code'', Txt ''E12000001'')]),
              (1, [(''Area Code'', Txt ''E12000002'')]),
              (0, [(''Area Code'', Txt ''E12000001'')]),
              (1, [(''Area Code'', Txt ''E12000002'')])]\<rparr> \<and>
   \<not> index_is_reset
     \<lparr>columns = [''Area Code''],
      rows = [(0, [(''Area Code'', Txt ''E12000001'')]),
              (1, [(''Area Code'', Txt ''E12000002'')]),
              (0, [(''Area Code'', Txt ''E12000001'')]),
              (1, [(''Area Code'', Txt ''E12000002'')])]\<rparr>"
proof -
  have r: "get_all_data_for_profile service_regions (PInt 19) (PInt 15)
     (PList [PInt 6, PInt 7]) (PList [])
   = ([ReadCsv (base_url @ ''all_data/csv/by_profile_id?child_area_type_id=6''
                  @ ''&parent_area_type_id=15&profile_id=19''),
       ReadCsv (base_url @ ''all_data/csv/by_profile_id?child_area_type_id=7''
                  @ ''&parent_area_type_id=15&profile_id=19'')],
      Inr \<lparr>columns = [''Area Code''],
           rows = [(0, [(''Area Code'', Txt ''E12000001'')]),
                   (1, [(''Area Code'', Txt ''E12000002'')]),
                   (0, [(''Area Code'', Txt ''E12000001'')]),
                   (1, [(''Area Code'', Txt ''E12000002'')])]\<rparr>)"
    apply (simp only: get_all_data_for_profile_split two_regions_fetches)
    apply (simp add: bind_io_def pure_io_def filter_area_codes_def)
    done
  show ?thesis
    by (simp add: r only_area_codes_def index_is_reset_def upt_rec)
qed

text \<open>
  C5, at the area type ID given as the string \<^verbatim>\<open>102\<close>: the loop runs over its characters and
  fetches the area types 1, 0 and 2. Given as the integer 102, the same ID is fetched once.
\<close>

theorem str_area_type_id_is_fetched_by_character:
  "fst (get_all_data_for_profile service_ok (PInt 19) (PInt 15)
     (PStr ''102'') PNone)
   = [ReadCsv (base_url @ ''all_data/csv/by_profile_id?child_area_type_id=1''
                  @ ''&parent_area_type_id=15&profile_id=19''),
      ReadCsv (base_url @ ''all_data/csv/by_profile_id?child_area_type_id=0''
                  @ ''&parent_area_type_id=15&profile_id=19''),
      ReadCsv (base_url @ ''all_data/csv/by_profile_id?child_area_type_id=2''
                  @ ''&parent_area_type_id=15&profile_id=19'')] \<and>
   fst (get_all_data_for_profile service_ok (PInt 19) (PInt 15)
     (PInt 102) PNone)
   = [ReadCsv (base_url @ ''all_data/csv/by_profile_id?child_area_type_id=102''
                  @ ''&parent_area_type_id=15&profile_id=19'')]"
  by (simp add: merged_profile_data_unfiltered merged_profile_data_def resolve_area_types_def
        bind_io_def pure_io_def read_csv_url_services profile_data_url_def
        str_int_15 str_int_19 str_int_102)

subsection \<open>Area types of a call, and the order of the profiles\<close>

lemma fst_bind_io_pure: "fst (bind_io m (\<lambda>x. pure_io (h x))) = fst m"
  by (cases m) (auto simp: bind_io_def pure_io_def split: sum.splits)

lemma get_json_no_csv: "filter is_ReadCsv (fst (get_json w url)) = []"
  by (simp add: get_json_def split: sum.splits)

lemma resolve_area_types_no_csv: "filter is_ReadCsv (fst (resolve_area_types w pid at)) = []"
  by (cases at)
     (simp_all add: resolve_area_types_def get_area_type_ids_for_profile_def
        get_area_types_for_profile_def get_data_in_dict_def fst_bind_io_pure get_json_no_csv)

lemma resolve_area_types_given:
  "resolve_area_types w pid (PInt i) = ([], Inr (PList [PInt i]))"
  "resolve_area_types w pid (PList xs) = ([], Inr (PList xs))"
  "resolve_area_types w pid PNone
     = bind_io (get_area_type_ids_for_profile w pid) (\<lambda>ids. pure_io (Inr (PList ids)))"
  by (simp_all add: resolve_area_types_def)

text \<open>
  A call that returns without a filter: the area types are what the argument resolves to,
  \<^verbatim>\<open>pd.read_csv\<close> is issued once for each, in order, and the table holds the rows fetched for
  each, in order.
\<close>

lemma all_data_for_profile_one_fetch_per_area_type:
  assumes "get_all_data_for_profile w pid par at PNone = (rs, Inr t)"
  shows "\<exists>rs0 area_types areas.
      resolve_area_types w pid at = (rs0, Inr area_types) \<and> py_iter area_types = Inr areas \<and>
      filter is_ReadCsv rs = map (\<lambda>a. ReadCsv (profile_data_url w pid par a)) areas \<and>
      rows t = concat (map (\<lambda>a. fetched_rows w (profile_data_url w pid par a)) areas)"
proof -
  from assms have m: "merged_profile_data w pid par at = (rs, Inr t)"
    by (simp add: merged_profile_data_unfiltered)
  obtain rs0 r0 where res: "resolve_area_types w pid at = (rs0, r0)"
    by (cases "resolve_area_types w pid at")
  from m res obtain area_types where r0: "r0 = Inr area_types"
    by (cases r0) (auto simp: merged_profile_data_def bind_io_def)
  from m res r0 obtain areas where it: "py_iter area_types = Inr areas"
    by (cases "py_iter area_types") (auto simp: merged_profile_data_def bind_io_def pure_io_def)
  obtain rs1 r1 where l: "profile_data_loop w pid par areas empty_df = (rs1, r1)"
    by (cases "profile_data_loop w pid par areas empty_df")
  from m res r0 it l have rs: "rs = rs0 @ rs1" and r1: "r1 = Inr t"
    by (simp_all add: merged_profile_data_def bind_io_def pure_io_def)
  have n0: "filter is_ReadCsv rs0 = []"
    using resolve_area_types_no_csv [of w pid at] res by simp
  from profile_data_loop_returns [OF l [unfolded r1]] rs n0 res r0 it
  show ?thesis by (simp add: empty_df_def)
qed

text \<open>
  When the objects of a response have distinct, hashable values under the key, the values
  of the mapping that pick mode builds are the objects themselves, in the order of the
  response.
\<close>

lemma pick_loop_source_order:
  "pick_loop key None items data = Inr res \<Longrightarrow>
   distinct (map Some (map fst data) @ map (picked_key key) items) \<Longrightarrow>
   map snd res = map snd data @ items"
proof (induction items arbitrary: data)
  case Nil
  then show ?case by simp
next
  case (Cons js rest)
  from Cons.prems(1) obtain kv k where kv: "py_get js key = Inr kv" and k: "hash_key kv = Some k"
    and rec: "pick_loop key None rest (dict_store k js data) = Inr res"
    by (auto split: sum.splits option.splits)
  have pk: "picked_key key js = Some k" using kv k by (simp add: picked_key_def)
  from Cons.prems(2) pk have new: "k \<notin> fst ` set data"
    by auto
  then have st: "dict_store k js data = data @ [(k, js)]" by (rule dict_store_new)
  from Cons.prems(2) pk have d: "distinct (map Some (map fst (data @ [(k, js)])) @ map (picked_key key) rest)"
    by auto
  from Cons.IH [OF rec [unfolded st] d] show ?case by simp
qed

lemma get_all_profiles_source_order:
  assumes "get_json w (base_url @ ''profiles'') = (rs, Inr (PList items))"
    and "default_key (PList items) = Inr key"
    and "distinct (map (picked_key key) items)"
    and "get_all_profiles w = (rs', Inr all_profiles)"
  shows "map snd all_profiles = items"
proof -
  from assms(1,2,4) have "pick_loop key None items [] = Inr all_profiles"
    by (simp add: get_all_profiles_def get_data_in_dict_unfold [OF assms(1)] normalize_pick_def)
  from pick_loop_source_order [OF this] assms(3) show ?thesis by simp
qed

end
